theory Spec2Isabelle
  imports Complex_Main "HOL-Library.Word" "HOL-Library.Sublist"
begin

unbundle bit_operations_syntax

chapter \<open>SpeedMimi: the request dispatch engine\<close>

text \<open>
  A shallow embedding of the dispatch core of the SpeedMimi reverse proxy:
  the backend entity and its atomic accessors (\<^verbatim>\<open>pkg/types\<close>), the five
  load-balancer policies (\<^verbatim>\<open>internal/loadbalancer\<close>), the configuration manager
  (\<^verbatim>\<open>internal/config\<close>), the dispatcher (\<^verbatim>\<open>internal/proxy\<close>) and the
  administrative update handler (\<^verbatim>\<open>internal/grpcservice\<close>).

  Conventions.
  \<^item> Go's \<^verbatim>\<open>int64\<close> gauge is a \<open>64 word\<close> read through \<open>sint\<close>; \<open>+\<close> and \<open>-\<close> wrap.
  \<^item> Go's \<^verbatim>\<open>int\<close> is the 64-bit one. Fields of that type that are only compared
    (ports, limits) are \<open>int\<close>; where the code adds them (weights) the wrap-around
    is written out.
  \<^item> A \<^verbatim>\<open>*Backend\<close> is an address into an explicit store; slices of pointers
    are lists of addresses. Pointers are non-nil.
  \<^item> A Go map that the code ranges over is an association list with distinct
    keys, given in the order in which this one \<^verbatim>\<open>range\<close> visits it; the Go
    runtime may choose any order.
  \<^item> \<^verbatim>\<open>float64\<close> scores are exact rationals; the results below depend
    on no rounding.
\<close>

section \<open>Data model (\<^verbatim>\<open>pkg/types/types.go\<close>)\<close>

type_synonym int64 = "64 word"
type_synonym int32 = "32 word"
type_synonym uint32 = "32 word"

record PerformanceInfo =
  CPUUsage :: rat
  MemoryUsage :: rat
  DiskUsage :: rat
  LoadAvg1 :: rat
  LoadAvg5 :: rat
  LoadAvg15 :: rat
  NetworkIn :: rat
  NetworkOut :: rat
  Timestamp :: int64

text \<open>
  The backend struct. \<open>active\<close> is the atomic mirror of \<open>Active\<close>;
  \<open>disconnect\<close> is the atomic drain mark. The health-check block and the
  report time play no part in dispatch and are left out.
\<close>

record Backend =
  ID :: string
  Name :: string
  Host :: string
  Port :: int
  Weight :: int
  Scheme :: string
  Active :: bool
  Connections :: int64
  MaxConn :: int
  Performance :: "PerformanceInfo option"
  active :: int32
  disconnect :: int32

subsection \<open>The connections gauge\<close>

definition GetConnections :: "Backend \<Rightarrow> int64" where
  "GetConnections b = Connections b"

definition IncConnections :: "Backend \<Rightarrow> Backend" where
  "IncConnections b = b\<lparr>Connections := Connections b + 1\<rparr>"

text \<open>\<^verbatim>\<open>atomic.CompareAndSwapInt64\<close> on a cell holding \<open>v\<close>: success flag and new content.\<close>

definition CompareAndSwapInt64 :: "int64 \<Rightarrow> int64 \<Rightarrow> int64 \<Rightarrow> bool \<times> int64" where
  "CompareAndSwapInt64 v old new = (if v = old then (True, new) else (False, v))"

text \<open>
  The loop of \<^verbatim>\<open>DecConnections\<close> run by one caller with no other writer
  between its load and its compare-and-swap.
\<close>

function DecConnections_loop :: "int64 \<Rightarrow> int64" where
  "DecConnections_loop v =
     (let current = v in
      if sint current \<le> 0 then v
      else (let r = CompareAndSwapInt64 v current (current - 1) in
            if fst r then snd r else DecConnections_loop (snd r)))"
  by pat_completeness auto
termination
  by (relation "{}") (auto simp: CompareAndSwapInt64_def)

definition DecConnections :: "Backend \<Rightarrow> Backend" where
  "DecConnections b = b\<lparr>Connections := DecConnections_loop (Connections b)\<rparr>"

definition SetConnections :: "int64 \<Rightarrow> Backend \<Rightarrow> Backend" where
  "SetConnections conns b = b\<lparr>Connections := conns\<rparr>"

subsection \<open>Flags and the connection limit\<close>

definition IsActive :: "Backend \<Rightarrow> bool" where
  "IsActive b = (active b = 1)"

definition SetActive :: "bool \<Rightarrow> Backend \<Rightarrow> Backend" where
  "SetActive a b = b\<lparr>active := (if a then 1 else 0), Active := a\<rparr>"

text \<open>
  Modelled from the spec: the accessors \<^verbatim>\<open>ShouldDisconnect\<close>,
  \<^verbatim>\<open>MarkForDisconnect\<close>, \<^verbatim>\<open>ClearDisconnectMark\<close> and
  \<^verbatim>\<open>IsConnectionLimitReached\<close> are called by the balancers and the dispatcher
  but are missing from \<^verbatim>\<open>types.go\<close>. The spec gives \<open>is_draining\<close>,
  \<open>mark_draining\<close>, \<open>clear_draining\<close> over an atomic flag, and
  \<open>at_connection_limit = max_conn > 0 \<and> get_connections \<ge> max_conn\<close>; the
  repository's feature notes print the same bodies.
\<close>

definition ShouldDisconnect :: "Backend \<Rightarrow> bool" where
  "ShouldDisconnect b = (disconnect b = 1)"

definition MarkForDisconnect :: "Backend \<Rightarrow> Backend" where
  "MarkForDisconnect b = b\<lparr>disconnect := 1\<rparr>"

definition ClearDisconnectMark :: "Backend \<Rightarrow> Backend" where
  "ClearDisconnectMark b = b\<lparr>disconnect := 0\<rparr>"

definition IsConnectionLimitReached :: "Backend \<Rightarrow> bool" where
  "IsConnectionLimitReached b =
     (if MaxConn b \<le> 0 then False else MaxConn b \<le> sint (GetConnections b))"

subsection \<open>Sequences of calls and interleavings\<close>

datatype call = IncCall | DecCall

fun apply_call :: "call \<Rightarrow> Backend \<Rightarrow> Backend" where
  "apply_call IncCall b = IncConnections b"
| "apply_call DecCall b = DecConnections b"

text \<open>
  Concurrent callers. Each thread is one call; its atomic actions are the
  atomic instructions of the source: the \<^verbatim>\<open>AddInt64\<close> of \<^verbatim>\<open>IncConnections\<close>,
  and in \<^verbatim>\<open>DecConnections\<close> the \<^verbatim>\<open>LoadInt64\<close> with its test, then the
  \<^verbatim>\<open>CompareAndSwapInt64\<close>, which on failure goes round the loop.
\<close>

datatype thread = Pending call | DecLoaded int64 | Returned

fun thread_step :: "int64 \<Rightarrow> thread \<Rightarrow> (int64 \<times> thread) option" where
  "thread_step v (Pending IncCall) = Some (v + 1, Returned)"
| "thread_step v (Pending DecCall) =
     (let current = v in
      if sint current \<le> 0 then Some (v, Returned) else Some (v, DecLoaded current))"
| "thread_step v (DecLoaded current) =
     (let r = CompareAndSwapInt64 v current (current - 1) in
      if fst r then Some (snd r, Returned) else Some (snd r, Pending DecCall))"
| "thread_step v Returned = None"

inductive sched_step :: "int64 \<times> thread list \<Rightarrow> int64 \<times> thread list \<Rightarrow> bool" where
  pick: "i < length ts \<Longrightarrow> thread_step v (ts ! i) = Some (v', t') \<Longrightarrow>
         sched_step (v, ts) (v', ts[i := t'])"

abbreviation sched_steps :: "int64 \<times> thread list \<Rightarrow> int64 \<times> thread list \<Rightarrow> bool" where
  "sched_steps \<equiv> sched_step\<^sup>*\<^sup>*"

definition gauge_inv :: "int64 \<times> thread list \<Rightarrow> bool" where
  "gauge_inv s =
     (0 \<le> sint (fst s) \<and>
      (\<forall>t \<in> set (snd s). case t of DecLoaded cur \<Rightarrow> 0 < sint cur | _ \<Rightarrow> True) \<and>
      sint (fst s) + int (count_list (snd s) (Pending IncCall)) < 2 ^ 63)"

text \<open>Sample backends: an idle one, one with a single connection, and one whose gauge
  holds the largest \<^verbatim>\<open>int64\<close>.\<close>

definition backend_zero :: Backend where
  "backend_zero = \<lparr>ID = ''b'', Name = ''b'', Host = ''127.0.0.1'', Port = 8081, Weight = 100,
     Scheme = ''http'', Active = True, Connections = 0, MaxConn = 0, Performance = None,
     active = 1, disconnect = 0\<rparr>"

definition backend_one :: Backend where
  "backend_one = backend_zero\<lparr>Connections := 1\<rparr>"

definition backend_full :: Backend where
  "backend_full = backend_zero\<lparr>Connections := 0x7FFFFFFFFFFFFFFF\<rparr>"

section \<open>Load balancers (\<^verbatim>\<open>internal/loadbalancer\<close>)\<close>

text \<open>
  The balancers of the second, connection-limit aware version of the package. A
  \<^verbatim>\<open>[]*types.Backend\<close> is a list of addresses read through the store \<open>h\<close>; the
  returned \<^verbatim>\<open>*types.Backend\<close> is an address, \<^verbatim>\<open>nil\<close> is \<open>None\<close>.
\<close>

type_synonym addr = nat
type_synonym store = "addr \<Rightarrow> Backend"

text \<open>
  What the core reads of a \<^verbatim>\<open>fasthttp.RequestCtx\<close>: the path, the header lookup
  (\<^verbatim>\<open>Header.Peek\<close>, empty when the header is absent), the host, the address of the
  TCP peer and the TLS flag.
\<close>

record RequestCtx =
  ReqPath :: string
  Peek :: "string \<Rightarrow> string"
  ReqHost :: string
  RemoteIP :: string
  IsTLS :: bool

definition MaxInt64 :: int64 where
  "MaxInt64 = 0x7FFFFFFFFFFFFFFF"

text \<open>Addition on Go's \<^verbatim>\<open>int\<close> is \<open>wrap_int (a + b)\<close>.\<close>

definition wrap_int :: "int \<Rightarrow> int" where
  "wrap_int x = (x + 2 ^ 63) mod 2 ^ 64 - 2 ^ 63"

subsection \<open>\<^verbatim>\<open>ip_hash\<close>\<close>

text \<open>The source's \<^verbatim>\<open>getClientIP\<close> of this balancer returns the empty string for every request.\<close>

definition IPHash_getClientIP :: "RequestCtx \<Rightarrow> string" where
  "IPHash_getClientIP req = ''''"

text \<open>\<^verbatim>\<open>hash/fnv\<close>: \<^verbatim>\<open>New32a\<close>, \<^verbatim>\<open>Write\<close> and \<^verbatim>\<open>Sum32\<close> (FNV-1a, 32 bits).\<close>

definition New32a :: uint32 where
  "New32a = 2166136261"

fun Write32a :: "uint32 \<Rightarrow> string \<Rightarrow> uint32" where
  "Write32a s [] = s"
| "Write32a s (c # cs) = Write32a ((s XOR of_char c) * 16777619) cs"

definition hashIP :: "string \<Rightarrow> uint32" where
  "hashIP ip = Write32a New32a ip"

fun selectRandom_loop :: "store \<Rightarrow> addr list \<Rightarrow> int64 \<Rightarrow> addr option \<Rightarrow> addr option" where
  "selectRandom_loop h [] minConn selected = selected"
| "selectRandom_loop h (p # ps) minConn selected =
     (if \<not> IsActive (h p) \<or> ShouldDisconnect (h p) \<or> IsConnectionLimitReached (h p)
      then selectRandom_loop h ps minConn selected
      else if sint (GetConnections (h p)) < sint minConn
      then selectRandom_loop h ps (GetConnections (h p)) (Some p)
      else selectRandom_loop h ps minConn selected)"

definition selectRandom :: "store \<Rightarrow> addr list \<Rightarrow> addr option" where
  "selectRandom h bs = selectRandom_loop h bs MaxInt64 None"

text \<open>
  \<^verbatim>\<open>SelectBackend\<close> of \<^verbatim>\<open>ip_hash\<close>. \<open>IPHash_choose\<close> is its last part, from the
  test of the client address on, as a function of the address that \<^verbatim>\<open>getClientIP\<close>
  returned.
\<close>

definition IPHash_choose :: "store \<Rightarrow> addr list \<Rightarrow> string \<Rightarrow> addr option" where
  "IPHash_choose h availableBackends clientIP =
     (if clientIP = '''' then selectRandom h availableBackends
      else
        let hash = hashIP clientIP;
            index = unat hash mod length availableBackends
        in Some (availableBackends ! index))"

definition IPHash_SelectBackend :: "store \<Rightarrow> addr list \<Rightarrow> RequestCtx \<Rightarrow> addr option" where
  "IPHash_SelectBackend h bs req =
     (if length bs = 0 then None
      else
        let availableBackends = filter (\<lambda>p. \<not> IsConnectionLimitReached (h p)) bs in
        if length availableBackends = 0 then None
        else
          let clientIP = IPHash_getClientIP req in
          IPHash_choose h availableBackends clientIP)"

subsection \<open>\<^verbatim>\<open>least_connections\<close>\<close>

fun LeastConnections_loop :: "store \<Rightarrow> addr list \<Rightarrow> int64 \<Rightarrow> addr option \<Rightarrow> addr option" where
  "LeastConnections_loop h [] minConn selected = selected"
| "LeastConnections_loop h (p # ps) minConn selected =
     (if sint (GetConnections (h p)) < sint minConn
      then LeastConnections_loop h ps (GetConnections (h p)) (Some p)
      else LeastConnections_loop h ps minConn selected)"

definition LeastConnections_SelectBackend :: "store \<Rightarrow> addr list \<Rightarrow> RequestCtx \<Rightarrow> addr option" where
  "LeastConnections_SelectBackend h bs req =
     (if length bs = 0 then None
      else
        let availableBackends =
              filter (\<lambda>p. IsActive (h p) \<and> \<not> ShouldDisconnect (h p) \<and>
                          \<not> IsConnectionLimitReached (h p)) bs
        in if length availableBackends = 0 then None
           else LeastConnections_loop h availableBackends MaxInt64 None)"

subsection \<open>\<^verbatim>\<open>least_connections_weight\<close>\<close>

text \<open>
  \<^verbatim>\<open>sort.Slice\<close> orders by the score; it promises no order among equal scores, and
  none is relied on below. \<open>rnd\<close> is the draw of the random source:
  \<^verbatim>\<open>r.Intn(n)\<close> is \<open>rnd mod n\<close>.
\<close>

type_synonym backendScore = "addr \<times> rat"

definition sort_Slice :: "('a \<Rightarrow> rat) \<Rightarrow> 'a list \<Rightarrow> 'a list" where
  "sort_Slice key xs = sort_key key xs"

fun LCW_candidates :: "store \<Rightarrow> addr list \<Rightarrow> backendScore list" where
  "LCW_candidates h [] = []"
| "LCW_candidates h (p # ps) =
     (if \<not> IsActive (h p) \<or> ShouldDisconnect (h p) \<or> IsConnectionLimitReached (h p)
      then LCW_candidates h ps
      else
        let weight = (if Weight (h p) \<le> 0 then 1 else Weight (h p));
            connections = GetConnections (h p);
            score = of_int (sint connections) / of_int weight
        in (p, score) # LCW_candidates h ps)"

definition LeastConnectionsWeight_SelectBackend ::
    "store \<Rightarrow> nat \<Rightarrow> addr list \<Rightarrow> RequestCtx \<Rightarrow> addr option" where
  "LeastConnectionsWeight_SelectBackend h rnd bs req =
     (if length bs = 0 then None
      else
        let candidates = LCW_candidates h bs in
        if length candidates = 0 then None
        else
          let ordered = sort_Slice snd candidates;
              minScore = snd (ordered ! 0);
              sameScoreCandidates = takeWhile (\<lambda>c. snd c = minScore) ordered
          in if length sameScoreCandidates = 1 then Some (fst (sameScoreCandidates ! 0))
             else
               let index = rnd mod length sameScoreCandidates
               in Some (fst (sameScoreCandidates ! index)))"

subsection \<open>\<^verbatim>\<open>weight\<close>\<close>

fun Weight_available :: "store \<Rightarrow> addr list \<Rightarrow> addr list \<times> int \<Rightarrow> addr list \<times> int" where
  "Weight_available h [] acc = acc"
| "Weight_available h (p # ps) (availableBackends, totalWeight) =
     (if IsActive (h p) \<and> \<not> ShouldDisconnect (h p) \<and> \<not> IsConnectionLimitReached (h p)
      then Weight_available h ps (availableBackends @ [p], wrap_int (totalWeight + Weight (h p)))
      else Weight_available h ps (availableBackends, totalWeight))"

fun Weight_walk :: "store \<Rightarrow> addr list \<Rightarrow> int \<Rightarrow> int \<Rightarrow> addr option" where
  "Weight_walk h [] r currentWeight = None"
| "Weight_walk h (p # ps) r currentWeight =
     (let currentWeight' = wrap_int (currentWeight + Weight (h p)) in
      if r < currentWeight' then Some p else Weight_walk h ps r currentWeight')"

definition Weight_SelectBackend :: "store \<Rightarrow> addr list \<Rightarrow> RequestCtx \<Rightarrow> addr option" where
  "Weight_SelectBackend h bs req =
     (if length bs = 0 then None
      else
        case Weight_available h bs ([], 0) of (availableBackends, totalWeight) \<Rightarrow>
          if length availableBackends = 0 then None
          else if totalWeight = 0 then None
          else
            let r = 0 in
            (case Weight_walk h availableBackends r 0 of
               Some p \<Rightarrow> Some p
             | None \<Rightarrow> Some (availableBackends ! 0)))"

subsection \<open>\<^verbatim>\<open>performance_least_connections_weight\<close>\<close>

definition CalculateUtilization :: "Backend \<Rightarrow> rat" where
  "CalculateUtilization b =
     (case Performance b of
        None \<Rightarrow> 0
      | Some perf \<Rightarrow>
          let cpuWeight = 0.4; memWeight = 0.4; loadWeight = 0.2;
              utilization = (CPUUsage perf / 100) * cpuWeight +
                            (MemoryUsage perf / 100) * memWeight +
                            (LoadAvg1 perf / 100) * loadWeight
          in if utilization > 1 then 1 else utilization)"

definition calculateScore :: "Backend \<Rightarrow> rat" where
  "calculateScore b =
     (let connections = GetConnections b;
          weight = (if (of_int (Weight b) :: rat) \<le> 0 then 1 else of_int (Weight b));
          utilization = CalculateUtilization b;
          connectionScore = of_int (sint connections) / weight;
          performanceScore = utilization * 100
      in connectionScore * 0.7 + performanceScore * 0.3)"

fun PLCW_candidates :: "store \<Rightarrow> addr list \<Rightarrow> backendScore list" where
  "PLCW_candidates h [] = []"
| "PLCW_candidates h (p # ps) =
     (if \<not> IsActive (h p) \<or> ShouldDisconnect (h p) \<or> IsConnectionLimitReached (h p)
      then PLCW_candidates h ps
      else (p, calculateScore (h p)) # PLCW_candidates h ps)"

definition PerformanceLCW_SelectBackend :: "store \<Rightarrow> addr list \<Rightarrow> RequestCtx \<Rightarrow> addr option" where
  "PerformanceLCW_SelectBackend h bs req =
     (if length bs = 0 then None
      else
        let candidates = PLCW_candidates h bs in
        if length candidates = 0 then None
        else Some (fst (sort_Slice snd candidates ! 0)))"

subsection \<open>The factory\<close>

datatype Balancer =
  IPHashBalancer | LeastConnectionsBalancer | LeastConnectionsWeightBalancer |
  WeightBalancer | PerformanceLCWBalancer

fun BalancerName :: "Balancer \<Rightarrow> string" where
  "BalancerName IPHashBalancer = ''ip_hash''"
| "BalancerName LeastConnectionsBalancer = ''least_connections''"
| "BalancerName LeastConnectionsWeightBalancer = ''least_connections_weight''"
| "BalancerName WeightBalancer = ''weight''"
| "BalancerName PerformanceLCWBalancer = ''performance_least_connections_weight''"

definition GetBalancer :: "string \<Rightarrow> Balancer" where
  "GetBalancer lbType =
     (if lbType = ''ip_hash'' then IPHashBalancer
      else if lbType = ''least_connections'' then LeastConnectionsBalancer
      else if lbType = ''least_connections_weight'' then LeastConnectionsWeightBalancer
      else if lbType = ''weight'' then WeightBalancer
      else if lbType = ''performance_least_connections_weight'' then PerformanceLCWBalancer
      else LeastConnectionsWeightBalancer)"

fun SelectBackend :: "Balancer \<Rightarrow> store \<Rightarrow> nat \<Rightarrow> addr list \<Rightarrow> RequestCtx \<Rightarrow> addr option" where
  "SelectBackend IPHashBalancer h rnd bs req = IPHash_SelectBackend h bs req"
| "SelectBackend LeastConnectionsBalancer h rnd bs req = LeastConnections_SelectBackend h bs req"
| "SelectBackend LeastConnectionsWeightBalancer h rnd bs req =
     LeastConnectionsWeight_SelectBackend h rnd bs req"
| "SelectBackend WeightBalancer h rnd bs req = Weight_SelectBackend h bs req"
| "SelectBackend PerformanceLCWBalancer h rnd bs req = PerformanceLCW_SelectBackend h bs req"

text \<open>The eligibility filter of the specification.\<close>

definition eligible :: "store \<Rightarrow> addr \<Rightarrow> bool" where
  "eligible h p =
     (IsActive (h p) \<and> \<not> ShouldDisconnect (h p) \<and> \<not> IsConnectionLimitReached (h p))"

section \<open>Configuration and dispatch (\<^verbatim>\<open>pkg/types\<close>, \<^verbatim>\<open>internal/proxy\<close>)\<close>

subsection \<open>The configuration document\<close>

text \<open>
  Field names that two structs share carry the struct's name in front
  (\<open>ServerHost\<close>, \<open>GRPCPort\<close>). Durations are nanoseconds. The two maps of
  \<^verbatim>\<open>Config\<close> are ranged over by the code and are association lists; the
  \<^verbatim>\<open>Protocols\<close> map of a rule is only looked up.
\<close>

record ServerConfig =
  ServerHost :: string
  ServerPort :: int
  ReadTimeout :: int
  WriteTimeout :: int
  ServerMaxConn :: int
  RealIPHeader :: string
  TrustedProxies :: "string list"

record SSLConfig =
  Enabled :: bool
  CertFile :: string
  KeyFile :: string

record RoutingRule =
  Path :: string
  Upstream :: string
  LoadBalancer :: string
  Protocols :: "(string \<times> string) list"

record GRPCConfig =
  GRPCEnabled :: bool
  GRPCHost :: string
  GRPCPort :: int

record Config =
  Server :: ServerConfig
  SSL :: SSLConfig
  Backends :: "(string \<times> addr list) list"
  Routing :: "(string \<times> RoutingRule) list"
  GRPC :: GRPCConfig

subsection \<open>Client address\<close>

text \<open>
  Go's \<^verbatim>\<open>net\<close> package is outside the repository: \<^verbatim>\<open>net.ParseIP\<close>,
  \<^verbatim>\<open>net.ParseCIDR\<close> (its network result, \<open>None\<close> on error) and
  \<^verbatim>\<open>IPNet.Contains\<close> are parameters of the model.
\<close>

record ('ip, 'net) NetPkg =
  ParseIP :: "string \<Rightarrow> 'ip option"
  ParseCIDR :: "string \<Rightarrow> 'net option"
  Contains :: "'net \<Rightarrow> 'ip \<Rightarrow> bool"

fun IsTrustedProxy_range :: "('ip, 'net) NetPkg \<Rightarrow> 'ip \<Rightarrow> string list \<Rightarrow> bool" where
  "IsTrustedProxy_range net clientIP [] = False"
| "IsTrustedProxy_range net clientIP (cidr # rest) =
     (case ParseCIDR net cidr of
        Some ipNet \<Rightarrow>
          if Contains net ipNet clientIP then True
          else IsTrustedProxy_range net clientIP rest
      | None \<Rightarrow> IsTrustedProxy_range net clientIP rest)"

definition IsTrustedProxy :: "('ip, 'net) NetPkg \<Rightarrow> string \<Rightarrow> string list \<Rightarrow> bool" where
  "IsTrustedProxy net ip trustedProxies =
     (case ParseIP net ip of
        None \<Rightarrow> False
      | Some clientIP \<Rightarrow> IsTrustedProxy_range net clientIP trustedProxies)"

text \<open>
  \<^verbatim>\<open>strings.Index\<close>, \<^verbatim>\<open>strings.TrimSpace\<close> (on ASCII text) and
  \<^verbatim>\<open>strings.HasPrefix\<close>.
\<close>

fun strings_Index_from :: "string \<Rightarrow> string \<Rightarrow> nat \<Rightarrow> int" where
  "strings_Index_from [] substr i = (if substr = [] then int i else - 1)"
| "strings_Index_from (c # s) substr i =
     (if prefix substr (c # s) then int i else strings_Index_from s substr (Suc i))"

definition strings_Index :: "string \<Rightarrow> string \<Rightarrow> int" where
  "strings_Index s substr = strings_Index_from s substr 0"

definition isSpace :: "char \<Rightarrow> bool" where
  "isSpace c = (c \<in> set [CHR '' '', CHR 0x09, CHR 0x0A, CHR 0x0B, CHR 0x0C, CHR 0x0D])"

definition strings_TrimSpace :: "string \<Rightarrow> string" where
  "strings_TrimSpace s = rev (dropWhile isSpace (rev (dropWhile isSpace s)))"

definition strings_HasPrefix :: "string \<Rightarrow> string \<Rightarrow> bool" where
  "strings_HasPrefix s pre = prefix pre s"

definition getClientIP :: "('ip, 'net) NetPkg \<Rightarrow> Config \<Rightarrow> RequestCtx \<Rightarrow> string" where
  "getClientIP net cfg ctx =
     (if RealIPHeader (Server cfg) \<noteq> '''' \<and> Peek ctx (RealIPHeader (Server cfg)) \<noteq> ''''
      then Peek ctx (RealIPHeader (Server cfg))
      else
        let xff = Peek ctx ''X-Forwarded-For'' in
        if xff \<noteq> '''' then
          (let idx = strings_Index xff '','' in
           if idx > 0 then
             (let ip = strings_TrimSpace (take (nat idx) xff) in
              if IsTrustedProxy net ip (TrustedProxies (Server cfg)) then ip
              else RemoteIP ctx)
           else RemoteIP ctx)
        else RemoteIP ctx)"

definition getProto :: "RequestCtx \<Rightarrow> string" where
  "getProto ctx = (if IsTLS ctx then ''https'' else ''http'')"

subsection \<open>Routing\<close>

text \<open>
  \<^verbatim>\<open>findRoutingRule\<close> ranges over the routing map and returns at the first rule
  whose path is a prefix of the request path. The list is the map in the order of this
  one \<^verbatim>\<open>range\<close>.
\<close>

fun findRoutingRule_range :: "(string \<times> RoutingRule) list \<Rightarrow> string \<Rightarrow> RoutingRule option" where
  "findRoutingRule_range [] path = None"
| "findRoutingRule_range ((name, rule) # rest) path =
     (if strings_HasPrefix path (Path rule) then Some rule
      else findRoutingRule_range rest path)"

definition findRoutingRule :: "Config \<Rightarrow> string \<Rightarrow> RoutingRule option" where
  "findRoutingRule cfg path =
     (case findRoutingRule_range (Routing cfg) path of
        Some rule \<Rightarrow> Some rule
      | None \<Rightarrow> map_of (Routing cfg) ''default'')"

definition detectProtocol :: "RequestCtx \<Rightarrow> string" where
  "detectProtocol ctx =
     (if Peek ctx ''Upgrade'' = ''websocket'' then ''websocket''
      else if Peek ctx ''Accept'' = ''text/event-stream'' then ''sse''
      else if IsTLS ctx then ''https''
      else ''http'')"

definition determineLBType :: "RoutingRule \<Rightarrow> RequestCtx \<Rightarrow> string" where
  "determineLBType rule ctx =
     (case map_of (Protocols rule) (detectProtocol ctx) of
        Some lbType \<Rightarrow> lbType
      | None \<Rightarrow> LoadBalancer rule)"

subsection \<open>Upstream registry\<close>

record Upstream =
  name :: string
  backends :: "addr list"
  lbType :: string

record UpstreamManager =
  upstreams :: "Upstream list"
  names :: "string \<rightharpoonup> nat"

definition GetUpstream :: "UpstreamManager \<Rightarrow> string \<Rightarrow> Upstream option" where
  "GetUpstream um n =
     (case names um n of
        Some index \<Rightarrow> if index < length (upstreams um) then Some (upstreams um ! index) else None
      | None \<Rightarrow> None)"

definition GetBackends :: "store \<Rightarrow> Upstream \<Rightarrow> addr list" where
  "GetBackends h u = filter (\<lambda>p. IsActive (h p) \<and> Active (h p)) (backends u)"

subsection \<open>The request handler\<close>

text \<open>
  The outcome of \<^verbatim>\<open>handleRequest\<close>: \<^verbatim>\<open>ctx.Error(msg, status)\<close>, or the call of
  \<^verbatim>\<open>proxyRequest\<close> on the selected backend, whose I/O is outside the model. The
  factory returns a balancer for every name, so the handler's test for a \<^verbatim>\<open>nil\<close>
  balancer never fires.
\<close>

datatype Response = Error string nat | Proxied addr

definition handleRequest ::
    "Config \<Rightarrow> UpstreamManager \<Rightarrow> store \<Rightarrow> nat \<Rightarrow> RequestCtx \<Rightarrow> Response" where
  "handleRequest cfg um h rnd ctx =
     (case findRoutingRule cfg (ReqPath ctx) of
        None \<Rightarrow> Error ''Not Found'' 404
      | Some rule \<Rightarrow>
          (case GetUpstream um (Upstream rule) of
             None \<Rightarrow> Error ''Service Unavailable'' 503
           | Some upstream \<Rightarrow>
               let bs = GetBackends h upstream in
               if length bs = 0 then Error ''Service Unavailable'' 503
               else
                 let balancer = GetBalancer (determineLBType rule ctx) in
                 (case SelectBackend balancer h rnd bs ctx of
                    None \<Rightarrow>
                      Error ''Service Unavailable (All backends at connection limit)'' 503
                  | Some backend \<Rightarrow> Proxied backend)))"

subsection \<open>An instance of the \<^verbatim>\<open>net\<close> parameters\<close>

text \<open>
  Dotted-quad IPv4 addresses and their CIDR blocks, for evaluating the code at concrete
  addresses: an address is its 32-bit number, a block the pair of its prefix and length.
\<close>

fun split_on :: "char \<Rightarrow> string \<Rightarrow> string list" where
  "split_on sep [] = [[]]"
| "split_on sep (c # s) =
     (if c = sep then [] # split_on sep s
      else (case split_on sep s of [] \<Rightarrow> [[c]] | w # ws \<Rightarrow> (c # w) # ws))"

definition digit_val :: "char \<Rightarrow> nat option" where
  "digit_val c = (let n = (of_char c :: nat) in if 48 \<le> n \<and> n \<le> 57 then Some (n - 48) else None)"

fun dec_val :: "string \<Rightarrow> nat \<Rightarrow> nat option" where
  "dec_val [] acc = Some acc"
| "dec_val (c # s) acc = (case digit_val c of None \<Rightarrow> None | Some d \<Rightarrow> dec_val s (10 * acc + d))"

definition dec_field :: "nat \<Rightarrow> string \<Rightarrow> nat option" where
  "dec_field bound s =
     (if s = [] \<or> 3 < length s \<or> (1 < length s \<and> hd s = CHR ''0'') then None
      else (case dec_val s 0 of None \<Rightarrow> None | Some v \<Rightarrow> if v \<le> bound then Some v else None))"

definition ipv4_ParseIP :: "string \<Rightarrow> nat option" where
  "ipv4_ParseIP s =
     (case those (map (dec_field 255) (split_on CHR ''.'' s)) of
        Some octets \<Rightarrow>
          if length octets = 4
          then Some (((octets ! 0 * 256 + octets ! 1) * 256 + octets ! 2) * 256 + octets ! 3)
          else None
      | None \<Rightarrow> None)"

definition ipv4_ParseCIDR :: "string \<Rightarrow> (nat \<times> nat) option" where
  "ipv4_ParseCIDR s =
     (let parts = split_on CHR ''/'' s in
      if length parts = 2 then
        (case ipv4_ParseIP (parts ! 0) of
           None \<Rightarrow> None
         | Some ip \<Rightarrow>
             (case dec_field 32 (parts ! 1) of
                None \<Rightarrow> None
              | Some n \<Rightarrow> Some (ip div 2 ^ (32 - n), n)))
      else None)"

definition ipv4_Contains :: "nat \<times> nat \<Rightarrow> nat \<Rightarrow> bool" where
  "ipv4_Contains ipNet ip = (ip div 2 ^ (32 - snd ipNet) = fst ipNet)"

definition ipv4 :: "(nat, nat \<times> nat) NetPkg" where
  "ipv4 = \<lparr>ParseIP = ipv4_ParseIP, ParseCIDR = ipv4_ParseCIDR, Contains = ipv4_Contains\<rparr>"

section \<open>Configuration manager (\<^verbatim>\<open>internal/config\<close>)\<close>

text \<open>The errors of \<^verbatim>\<open>validateConfig\<close>, one constructor for each \<^verbatim>\<open>fmt.Errorf\<close>.\<close>

datatype ConfigError =
    InvalidServerPort int
  | SSLCertRequired
  | SSLKeyRequired
  | UpstreamHasNoBackends string
  | BackendHostRequired string
  | InvalidBackendPort int string
  | RoutingUpstreamRequired string
  | RoutingUpstreamNotFound string string

fun validateConfig_backend :: "store \<Rightarrow> string \<Rightarrow> addr list \<Rightarrow> ConfigError option" where
  "validateConfig_backend h upstream [] = None"
| "validateConfig_backend h upstream (p # ps) =
     (if Host (h p) = '''' then Some (BackendHostRequired upstream)
      else if Port (h p) \<le> 0 \<or> Port (h p) > 65535
      then Some (InvalidBackendPort (Port (h p)) upstream)
      else validateConfig_backend h upstream ps)"

fun validateConfig_backends :: "store \<Rightarrow> (string \<times> addr list) list \<Rightarrow> ConfigError option" where
  "validateConfig_backends h [] = None"
| "validateConfig_backends h ((upstream, bs) # rest) =
     (if length bs = 0 then Some (UpstreamHasNoBackends upstream)
      else (case validateConfig_backend h upstream bs of
              Some e \<Rightarrow> Some e
            | None \<Rightarrow> validateConfig_backends h rest))"

fun validateConfig_routing ::
    "(string \<times> addr list) list \<Rightarrow> (string \<times> RoutingRule) list \<Rightarrow> ConfigError option" where
  "validateConfig_routing bks [] = None"
| "validateConfig_routing bks ((rname, rule) # rest) =
     (if Upstream rule = '''' then Some (RoutingUpstreamRequired rname)
      else if map_of bks (Upstream rule) = None
      then Some (RoutingUpstreamNotFound (Upstream rule) rname)
      else validateConfig_routing bks rest)"

definition validateConfig :: "store \<Rightarrow> Config \<Rightarrow> ConfigError option" where
  "validateConfig h cfg =
     (if ServerPort (Server cfg) \<le> 0 \<or> ServerPort (Server cfg) > 65535
      then Some (InvalidServerPort (ServerPort (Server cfg)))
      else if Enabled (SSL cfg) \<and> CertFile (SSL cfg) = '''' then Some SSLCertRequired
      else if Enabled (SSL cfg) \<and> KeyFile (SSL cfg) = '''' then Some SSLKeyRequired
      else (case validateConfig_backends h (Backends cfg) of
              Some e \<Rightarrow> Some e
            | None \<Rightarrow> validateConfig_routing (Backends cfg) (Routing cfg)))"

text \<open>
  \<^verbatim>\<open>saveConfig\<close> marshals the candidate and writes the file at \<^verbatim>\<open>configPath\<close>. Both
  steps belong to the environment, which answers with a \<open>SaveOutcome\<close>. The file is
  \<open>Some c\<close> when it holds the document of \<open>c\<close> and \<open>None\<close> when a failed write
  left it damaged; a failed write may leave any content. A watcher is a channel
  of capacity 1: \<open>None\<close> when empty, and a send to a full one is dropped.
\<close>

datatype SaveOutcome = Saved | MarshalFailed | WriteFailed "Config option"

record Manager =
  config :: Config
  configPath :: string
  watchers :: "Config option list"

record World =
  manager :: Manager
  disk :: "Config option"

definition saveConfig :: "SaveOutcome \<Rightarrow> Config \<Rightarrow> Config option \<Rightarrow> bool \<times> Config option" where
  "saveConfig io cfg file =
     (case io of
        MarshalFailed \<Rightarrow> (False, file)
      | WriteFailed file' \<Rightarrow> (False, file')
      | Saved \<Rightarrow> (True, Some cfg))"

definition notifyWatchers :: "Config \<Rightarrow> Config option list \<Rightarrow> Config option list" where
  "notifyWatchers cfg ws = map (\<lambda>w. case w of None \<Rightarrow> Some cfg | Some c \<Rightarrow> Some c) ws"

datatype UpdateError = InvalidConfig ConfigError | FailedToSaveConfig

definition UpdateConfig ::
    "store \<Rightarrow> SaveOutcome \<Rightarrow> Config \<Rightarrow> World \<Rightarrow> UpdateError option \<times> World" where
  "UpdateConfig h io cfg w =
     (case validateConfig h cfg of
        Some e \<Rightarrow> (Some (InvalidConfig e), w)
      | None \<Rightarrow>
          (case saveConfig io cfg (disk w) of
             (False, file') \<Rightarrow> (Some FailedToSaveConfig, w\<lparr>disk := file'\<rparr>)
           | (True, file') \<Rightarrow>
               (None,
                w\<lparr>disk := file',
                  manager := (manager w)\<lparr>config := cfg,
                    watchers := notifyWatchers cfg (watchers (manager w))\<rparr>\<rparr>)))"

text \<open>
  The validation rules in the words of the specification: server port outside
  \<open>[1, 65535]\<close>, TLS enabled without a certificate or key path, an upstream with zero
  backends, a backend with empty host or port outside \<open>[1, 65535]\<close>, a routing rule
  whose upstream name has no backend entry. The code has one more: a routing rule whose
  upstream name is empty.
\<close>

definition listed_violation :: "store \<Rightarrow> Config \<Rightarrow> bool" where
  "listed_violation h cfg =
     (ServerPort (Server cfg) < 1 \<or> 65535 < ServerPort (Server cfg) \<or>
      (Enabled (SSL cfg) \<and> (CertFile (SSL cfg) = '''' \<or> KeyFile (SSL cfg) = '''')) \<or>
      (\<exists>ub \<in> set (Backends cfg). snd ub = []) \<or>
      (\<exists>ub \<in> set (Backends cfg). \<exists>p \<in> set (snd ub).
          Host (h p) = '''' \<or> Port (h p) < 1 \<or> 65535 < Port (h p)) \<or>
      (\<exists>nr \<in> set (Routing cfg). Upstream (snd nr) \<notin> fst ` set (Backends cfg)))"

definition empty_upstream_name :: "Config \<Rightarrow> bool" where
  "empty_upstream_name cfg = (\<exists>nr \<in> set (Routing cfg). Upstream (snd nr) = '''')"

section \<open>The update handler (\<^verbatim>\<open>internal/grpcservice\<close>)\<close>

text \<open>
  \<^verbatim>\<open>handleUpdateBackend\<close> on the method and the body of the request; the body is
  unreadable, not JSON, or decodes to the three fields. The result is the response and
  the store after the handler.
\<close>

record UpdateBackendReq =
  UpstreamID :: string
  BackendID :: string
  ReqMaxConn :: int

datatype RequestBody = ReadError | InvalidJSON | Decoded UpdateBackendReq

datatype HttpResponse = HttpError string nat | HttpJSON bool string

definition handleUpdateBackend ::
    "UpstreamManager \<Rightarrow> store \<Rightarrow> string \<Rightarrow> RequestBody \<Rightarrow> HttpResponse \<times> store" where
  "handleUpdateBackend um h method body =
     (if method \<noteq> ''PUT'' then (HttpError ''Method not allowed'' 405, h)
      else
        case body of
          ReadError \<Rightarrow> (HttpError ''Failed to read request body'' 400, h)
        | InvalidJSON \<Rightarrow> (HttpError ''Invalid JSON'' 400, h)
        | Decoded req \<Rightarrow>
            if UpstreamID req = '''' \<or> BackendID req = ''''
            then (HttpError ''upstream_id and backend_id are required'' 400, h)
            else
              (case GetUpstream um (UpstreamID req) of
                 None \<Rightarrow> (HttpError ''upstream not found'' 404, h)
               | Some upstream \<Rightarrow>
                   (case find (\<lambda>p. ID (h p) = BackendID req) (GetBackends h upstream) of
                      None \<Rightarrow> (HttpError ''backend not found'' 404, h)
                    | Some p \<Rightarrow>
                        (HttpJSON True ''Backend updated successfully'',
                         h(p := (h p)\<lparr>MaxConn := ReqMaxConn req\<rparr>)))))"

section \<open>Sample data\<close>

text \<open>Concrete requests, backends and stores at which the results below are evaluated.\<close>

definition ctx0 :: RequestCtx where
  "ctx0 = \<lparr>ReqPath = ''/api/x'', Peek = (\<lambda>k. ''''), ReqHost = ''example.org'',
            RemoteIP = ''203.0.113.7'', IsTLS = False\<rparr>"

definition sample_backend :: "string \<Rightarrow> int \<Rightarrow> int64 \<Rightarrow> Backend" where
  "sample_backend i w c = backend_zero\<lparr>ID := i, Weight := w, Connections := c\<rparr>"

definition store_a :: store where
  "store_a = (\<lambda>_. backend_zero)(0 := sample_backend ''a'' 100 0, 1 := sample_backend ''b'' 100 1)"

definition store_b :: store where
  "store_b = (\<lambda>_. backend_zero)(0 := sample_backend ''a'' 100 2, 1 := sample_backend ''b'' 100 1)"

definition store_drain :: store where
  "store_drain = (\<lambda>_. backend_zero)
     (0 := MarkForDisconnect (sample_backend ''a'' 100 0), 1 := sample_backend ''b'' 100 5)"

definition weighted_store :: "int64 \<Rightarrow> int64 \<Rightarrow> int64 \<Rightarrow> store" where
  "weighted_store c0 c1 c2 = (\<lambda>_. backend_zero)
     (0 := sample_backend ''w1'' 1 c0, 1 := sample_backend ''w2'' 2 c1,
      2 := sample_backend ''w3'' 3 c2)"

definition server0 :: ServerConfig where
  "server0 = \<lparr>ServerHost = ''0.0.0.0'', ServerPort = 8080, ReadTimeout = 30000000000,
     WriteTimeout = 30000000000, ServerMaxConn = 10000, RealIPHeader = ''X-Real-IP'',
     TrustedProxies = [''127.0.0.1/32'', ''10.0.0.0/8'']\<rparr>"

definition rule_root :: RoutingRule where
  "rule_root = \<lparr>Path = ''/'', Upstream = ''default'', LoadBalancer = ''least_connections'',
     Protocols = []\<rparr>"

definition rule_api :: RoutingRule where
  "rule_api = \<lparr>Path = ''/api'', Upstream = ''default'', LoadBalancer = ''least_connections'',
     Protocols = []\<rparr>"

definition cfg_routes :: "(string \<times> RoutingRule) list \<Rightarrow> Config" where
  "cfg_routes rs = \<lparr>Server = server0,
     SSL = \<lparr>Enabled = False, CertFile = '''', KeyFile = ''''\<rparr>,
     Backends = [(''default'', [0, 1])], Routing = rs,
     GRPC = \<lparr>GRPCEnabled = True, GRPCHost = ''127.0.0.1'', GRPCPort = 9090\<rparr>\<rparr>"

definition um_default :: UpstreamManager where
  "um_default = \<lparr>upstreams = [\<lparr>name = ''default'', backends = [0, 1],
       lbType = ''least_connections_weight''\<rparr>],
     names = [''default'' \<mapsto> 0]\<rparr>"

definition store_all_drain :: store where
  "store_all_drain = (\<lambda>_. backend_zero)
     (0 := MarkForDisconnect (sample_backend ''a'' 100 0),
      1 := MarkForDisconnect (sample_backend ''b'' 100 0))"

definition store_inactive :: store where
  "store_inactive = (\<lambda>_. SetActive False backend_zero)"

definition ctx_xff :: "string \<Rightarrow> string \<Rightarrow> RequestCtx" where
  "ctx_xff xff peer = \<lparr>ReqPath = ''/'',
     Peek = (\<lambda>k. if k = ''X-Forwarded-For'' then xff else ''''),
     ReqHost = ''example.org'', RemoteIP = peer, IsTLS = False\<rparr>"

definition cfg_ok :: Config where
  "cfg_ok = cfg_routes [(''default'', rule_root)]"

definition cfg_bad_port :: Config where
  "cfg_bad_port = cfg_ok\<lparr>Server := server0\<lparr>ServerPort := 0\<rparr>\<rparr>"

definition cfg_empty_name :: Config where
  "cfg_empty_name = cfg_ok\<lparr>Backends := [('''', [0])],
     Routing := [(''r'', rule_root\<lparr>Upstream := ''''\<rparr>)]\<rparr>"

definition world0 :: World where
  "world0 = \<lparr>manager = \<lparr>config = cfg_ok, configPath = ''configs/config.yaml'',
       watchers = [None]\<rparr>,
     disk = Some cfg_ok\<rparr>"

definition store_inactive_a :: store where
  "store_inactive_a = (\<lambda>_. backend_zero)
     (0 := SetActive False (sample_backend ''a'' 100 0), 1 := sample_backend ''b'' 100 0)"

definition update_a :: UpdateBackendReq where
  "update_a = \<lparr>UpstreamID = ''default'', BackendID = ''a'', ReqMaxConn = 5\<rparr>"

section \<open>Properties of the gauge\<close>

lemma sint64_range: "- (2 ^ 63) \<le> sint (c::int64) \<and> sint c < 2 ^ 63"
  using sint_ge [of c] sint_lt [of c] by simp

lemma sint_inc: "sint (c::int64) < 2 ^ 63 - 1 \<Longrightarrow> sint (c + 1) = sint c + 1"
proof -
  assume a: "sint c < 2 ^ 63 - 1"
  have "sint (c + 1) = signed_take_bit 63 (sint c + 1)"
    by (simp add: sint_word_add)
  also have "\<dots> = sint c + 1"
    using a sint64_range [of c] by (intro signed_take_bit_int_eq_self) auto
  finally show ?thesis .
qed

lemma sint_dec: "- (2 ^ 63) < sint (c::int64) \<Longrightarrow> sint (c - 1) = sint c - 1"
proof -
  assume a: "- (2 ^ 63) < sint c"
  have "sint (c - 1) = signed_take_bit 63 (sint c - 1)"
    by (simp add: sint_word_ariths)
  also have "\<dots> = sint c - 1"
    using a sint64_range [of c] by (intro signed_take_bit_int_eq_self) auto
  finally show ?thesis .
qed

lemma DecConnections_loop_eq: "DecConnections_loop v = (if sint v \<le> 0 then v else v - 1)"
  by (subst DecConnections_loop.simps) (simp add: CompareAndSwapInt64_def Let_def)

declare DecConnections_loop.simps [simp del]

lemma DecConnections_nonneg:
  "0 \<le> sint (GetConnections b) \<Longrightarrow> 0 \<le> sint (GetConnections (DecConnections b))"
  by (simp add: GetConnections_def DecConnections_def DecConnections_loop_eq sint_dec)

lemma DecConnections_sint:
  "sint (GetConnections (DecConnections b)) =
     (if sint (GetConnections b) \<le> 0 then sint (GetConnections b) else sint (GetConnections b) - 1)"
  by (simp add: GetConnections_def DecConnections_def DecConnections_loop_eq sint_dec)

lemma IncConnections_sint:
  "sint (GetConnections b) < 2 ^ 63 - 1 \<Longrightarrow>
   sint (GetConnections (IncConnections b)) = sint (GetConnections b) + 1"
  by (simp add: GetConnections_def IncConnections_def sint_inc)

lemma calls_nonneg:
  "0 \<le> sint (GetConnections b) \<Longrightarrow>
   sint (GetConnections b) + int (count_list calls IncCall) < 2 ^ 63 \<Longrightarrow>
   0 \<le> sint (GetConnections (fold apply_call calls b))"
proof (induction calls arbitrary: b)
  case Nil
  then show ?case by simp
next
  case (Cons c calls)
  show ?case
  proof (cases c)
    case IncCall
    have lt: "sint (GetConnections b) < 2 ^ 63 - 1"
      using Cons.prems(2) IncCall by simp
    have "0 \<le> sint (GetConnections (fold apply_call calls (IncConnections b)))"
      using Cons.prems IncCall by (intro Cons.IH) (simp_all add: IncConnections_sint [OF lt])
    then show ?thesis using IncCall by simp
  next
    case DecCall
    have "0 \<le> sint (GetConnections (fold apply_call calls (DecConnections b)))"
      using Cons.prems DecCall
      by (intro Cons.IH) (simp_all add: DecConnections_nonneg DecConnections_sint)
    then show ?thesis using DecCall by simp
  qed
qed

lemma count_list_update:
  "i < length xs \<Longrightarrow>
   int (count_list (xs[i := y]) a) =
     int (count_list xs a) - (if xs ! i = a then 1 else 0) + (if y = a then 1 else 0)"
proof (induction xs arbitrary: i)
  case Nil
  then show ?case by simp
next
  case (Cons x xs)
  show ?case
  proof (cases i)
    case 0
    then show ?thesis by simp
  next
    case (Suc j)
    then show ?thesis using Cons.IH [of j] Cons.prems by (auto split: if_splits)
  qed
qed

lemma list_update_all:
  "\<forall>t \<in> set ts. P t \<Longrightarrow> P t' \<Longrightarrow> \<forall>t \<in> set (ts[i := t']). P t"
  using set_update_subset_insert [of ts i t'] by auto

lemma count_list_pos: "i < length xs \<Longrightarrow> xs ! i = a \<Longrightarrow> 0 < count_list xs a"
  by (metis count_list_0_iff nth_mem not_gr_zero)

lemma sched_step_inv:
  assumes "sched_step s s'" and "gauge_inv s"
  shows "gauge_inv s'"
  using assms
proof (induction rule: sched_step.induct)
  case (pick i ts v v' t')
  let ?ok = "\<lambda>t. case t of DecLoaded cur \<Rightarrow> 0 < sint cur | _ \<Rightarrow> True"
  let ?n = "\<lambda>xs. int (count_list xs (Pending IncCall))"
  have nn: "0 \<le> sint v" and loaded: "\<forall>t \<in> set ts. ?ok t" and room: "sint v + ?n ts < 2 ^ 63"
    using pick.prems by (simp_all add: gauge_inv_def)
  have mem: "ts ! i \<in> set ts" using pick.hyps(1) by simp
  have cnt: "?n (ts[i := t']) =
      ?n ts - (if ts ! i = Pending IncCall then 1 else 0) + (if t' = Pending IncCall then 1 else 0)"
    by (rule count_list_update [OF pick.hyps(1)])
  have goal: "gauge_inv (v', ts[i := t'])"
    if "0 \<le> sint v'" and "?ok t'" and "sint v' + ?n (ts[i := t']) < 2 ^ 63"
    using that list_update_all [OF loaded, of t' i] by (simp add: gauge_inv_def)
  show ?case
  proof (cases "ts ! i")
    case (Pending c)
    show ?thesis
    proof (cases c)
      case IncCall
      have v': "v' = v + 1" and t': "t' = Returned"
        using pick.hyps(2) Pending IncCall by simp_all
      have pos: "0 < count_list ts (Pending IncCall)"
        using count_list_pos [OF pick.hyps(1)] Pending IncCall by simp
      have lt: "sint v < 2 ^ 63 - 1" using room pos by linarith
      have s: "sint v' = sint v + 1" unfolding v' by (rule sint_inc [OF lt])
      have c: "?n (ts[i := t']) = ?n ts - 1" using cnt Pending IncCall t' by simp
      show ?thesis
      proof (rule goal)
        show "0 \<le> sint v'" using nn by (simp add: s)
        show "?ok t'" by (simp add: t')
        show "sint v' + ?n (ts[i := t']) < 2 ^ 63" using room by (simp add: s c)
      qed
    next
      case DecCall
      have v': "v' = v" and t': "t' = (if sint v \<le> 0 then Returned else DecLoaded v)"
        using pick.hyps(2) Pending DecCall by (auto simp: Let_def split: if_splits)
      have c: "?n (ts[i := t']) = ?n ts" using cnt Pending DecCall t' by simp
      show ?thesis
      proof (rule goal)
        show "0 \<le> sint v'" using nn by (simp add: v')
        show "?ok t'" by (simp add: t')
        show "sint v' + ?n (ts[i := t']) < 2 ^ 63" using room by (simp add: v' c)
      qed
    qed
  next
    case (DecLoaded cur)
    have curpos: "0 < sint cur" using loaded mem DecLoaded by force
    show ?thesis
    proof (cases "v = cur")
      case True
      have v': "v' = cur - 1" and t': "t' = Returned"
        using pick.hyps(2) DecLoaded True by (simp_all add: CompareAndSwapInt64_def)
      have s: "sint v' = sint v - 1"
        unfolding v' True using curpos by (intro sint_dec) simp
      have c: "?n (ts[i := t']) = ?n ts" using cnt DecLoaded t' by simp
      show ?thesis
      proof (rule goal)
        show "0 \<le> sint v'" using curpos True by (simp add: s)
        show "?ok t'" by (simp add: t')
        show "sint v' + ?n (ts[i := t']) < 2 ^ 63" using room by (simp add: s c)
      qed
    next
      case False
      have v': "v' = v" and t': "t' = Pending DecCall"
        using pick.hyps(2) DecLoaded False by (simp_all add: CompareAndSwapInt64_def)
      have c: "?n (ts[i := t']) = ?n ts" using cnt DecLoaded t' by simp
      show ?thesis
      proof (rule goal)
        show "0 \<le> sint v'" using nn by (simp add: v')
        show "?ok t'" by (simp add: t')
        show "sint v' + ?n (ts[i := t']) < 2 ^ 63" using room by (simp add: v' c)
      qed
    qed
  next
    case Returned
    then show ?thesis using pick.hyps(2) by simp
  qed
qed

lemma sched_steps_inv: "sched_steps s s' \<Longrightarrow> gauge_inv s \<Longrightarrow> gauge_inv s'"
  by (induction rule: rtranclp_induct) (auto intro: sched_step_inv)

lemma gauge_inv_initial:
  "0 \<le> sint v \<Longrightarrow> sint v + int (count_list calls IncCall) < 2 ^ 63 \<Longrightarrow>
   gauge_inv (v, map Pending calls)"
proof -
  have "count_list (map Pending calls) (Pending IncCall) = count_list calls IncCall"
    by (induction calls) auto
  then show "0 \<le> sint v \<Longrightarrow> sint v + int (count_list calls IncCall) < 2 ^ 63 \<Longrightarrow>
    gauge_inv (v, map Pending calls)"
    by (auto simp: gauge_inv_def)
qed


lemma race_execution:
  "sched_steps (1, [Pending DecCall, Pending DecCall]) (0, [Returned, Returned])"
proof -
  have 1: "sched_step (1, [Pending DecCall, Pending DecCall]) (1, [DecLoaded 1, Pending DecCall])"
    using pick [of 0 "[Pending DecCall, Pending DecCall]" 1 1 "DecLoaded 1"] by simp
  have 2: "sched_step (1, [DecLoaded 1, Pending DecCall]) (1, [DecLoaded 1, DecLoaded 1])"
    using pick [of 1 "[DecLoaded 1, Pending DecCall]" 1 1 "DecLoaded 1"] by simp
  have 3: "sched_step (1, [DecLoaded 1, DecLoaded 1]) (0, [Returned, DecLoaded 1])"
    using pick [of 0 "[DecLoaded 1, DecLoaded 1]" 1 0 Returned]
    by (simp add: CompareAndSwapInt64_def)
  have 4: "sched_step (0, [Returned, DecLoaded 1]) (0, [Returned, Pending DecCall])"
    using pick [of 1 "[Returned, DecLoaded 1]" 0 0 "Pending DecCall"]
    by (simp add: CompareAndSwapInt64_def)
  have 5: "sched_step (0, [Returned, Pending DecCall]) (0, [Returned, Returned])"
    using pick [of 1 "[Returned, Pending DecCall]" 0 0 Returned] by simp
  from 1 2 3 4 5 show ?thesis by (meson rtranclp.rtrancl_into_rtrancl rtranclp.rtrancl_refl)
qed

subsection \<open>C1: the gauge stays non-negative\<close>

text \<open>
  C1, as stated, fails at the top of the \<^verbatim>\<open>int64\<close> range: the gauge
  \<open>2^63 - 1\<close> is non-negative, and one \<^verbatim>\<open>IncConnections\<close> (an
  \<^verbatim>\<open>atomic.AddInt64\<close>, which wraps) makes \<^verbatim>\<open>GetConnections\<close> negative.
\<close>

theorem C1_counterexample:
  "0 \<le> sint (GetConnections backend_full) \<and>
   sint (GetConnections (fold apply_call [IncCall] backend_full)) < 0"
  by (simp add: backend_full_def backend_zero_def GetConnections_def IncConnections_def)

text \<open>
  C1, amended: for a backend whose gauge is non-negative, \<^verbatim>\<open>DecConnections\<close>
  never makes it negative and leaves a gauge of 0 at 0; every sequence of
  \<^verbatim>\<open>IncConnections\<close> and \<^verbatim>\<open>DecConnections\<close> calls keeps it non-negative as long as
  the gauge plus the number of increments stays below \<open>2^63\<close>; and under the same bound
  every interleaving of the atomic steps of concurrent calls (in particular of concurrent
  decrements, which need no bound of their own) keeps it non-negative at every moment.
\<close>

theorem C1_gauge_nonneg:
  assumes "0 \<le> sint (GetConnections b)"
  shows "0 \<le> sint (GetConnections (DecConnections b)) \<and>
         (GetConnections b = 0 \<longrightarrow> GetConnections (DecConnections b) = 0) \<and>
         (sint (GetConnections b) + int (count_list calls IncCall) < 2 ^ 63 \<longrightarrow>
            0 \<le> sint (GetConnections (fold apply_call calls b)) \<and>
            (\<forall>v' ts'. sched_steps (GetConnections b, map Pending calls) (v', ts') \<longrightarrow>
                      0 \<le> sint v'))"
proof (intro conjI impI allI)
  show "0 \<le> sint (GetConnections (DecConnections b))"
    using assms by (rule DecConnections_nonneg)
next
  assume "GetConnections b = 0"
  then show "GetConnections (DecConnections b) = 0"
    by (simp add: GetConnections_def DecConnections_def DecConnections_loop_eq)
next
  assume "sint (GetConnections b) + int (count_list calls IncCall) < 2 ^ 63"
  then show "0 \<le> sint (GetConnections (fold apply_call calls b))"
    using assms by (intro calls_nonneg)
next
  fix v' ts'
  assume room: "sint (GetConnections b) + int (count_list calls IncCall) < 2 ^ 63"
    and run: "sched_steps (GetConnections b, map Pending calls) (v', ts')"
  have "gauge_inv (GetConnections b, map Pending calls)"
    using assms room by (rule gauge_inv_initial)
  then have "gauge_inv (v', ts')"
    using run by (intro sched_steps_inv [OF run])
  then show "0 \<le> sint v'" by (simp add: gauge_inv_def)
qed

theorem C1_gauge_nonneg_witness:
  "0 \<le> sint (GetConnections backend_one) \<and>
   sint (GetConnections backend_one) + int (count_list [DecCall, DecCall] IncCall) < 2 ^ 63 \<and>
   sched_steps (GetConnections backend_one, map Pending [DecCall, DecCall])
     (0, [Returned, Returned]) \<and>
   0 \<le> sint (GetConnections (DecConnections backend_one)) \<and>
   0 \<le> sint (GetConnections (fold apply_call [DecCall, DecCall] backend_one)) \<and>
   GetConnections (DecConnections backend_zero) = 0"
proof -
  have g: "GetConnections backend_one = 1" "GetConnections backend_zero = 0"
    by (simp_all add: backend_one_def backend_zero_def GetConnections_def)
  have h: "0 \<le> sint (GetConnections backend_one)" "0 \<le> sint (GetConnections backend_zero)"
    by (simp_all add: g)
  have r: "sint (GetConnections backend_one) + int (count_list [DecCall, DecCall] IncCall) < 2 ^ 63"
    by (simp add: g)
  have e: "sched_steps (GetConnections backend_one, map Pending [DecCall, DecCall])
            (0, [Returned, Returned])"
    using race_execution by (simp add: g)
  show ?thesis
    using C1_gauge_nonneg [OF h(1), of "[DecCall, DecCall]"]
      C1_gauge_nonneg [OF h(2), of "[]"] h r e g
    by blast
qed

subsection \<open>C10: \<^verbatim>\<open>SetConnections\<close> stores any value\<close>

text \<open>
  C10: \<^verbatim>\<open>SetConnections\<close> stores its argument unchecked, so the next
  \<^verbatim>\<open>GetConnections\<close> returns exactly that argument, and for every negative
  argument a negative gauge is observed.
\<close>

theorem C10_SetConnections_unchecked:
  "GetConnections (SetConnections n b) = n \<and>
   (sint n < 0 \<longrightarrow> sint (GetConnections (SetConnections n b)) < 0)"
  by (simp add: GetConnections_def SetConnections_def)

theorem C10_SetConnections_unchecked_witness:
  "sint (- 1 :: int64) < 0 \<and> 0 \<le> sint (GetConnections backend_zero) \<and>
   sint (GetConnections (SetConnections (- 1) backend_zero)) < 0"
proof -
  have "sint (- 1 :: int64) < 0" by simp
  moreover have "0 \<le> sint (GetConnections backend_zero)"
    by (simp add: backend_zero_def GetConnections_def)
  ultimately show ?thesis
    using C10_SetConnections_unchecked [of "- 1" backend_zero] by simp
qed

section \<open>Properties of the load balancers\<close>

lemma selectRandom_loop_sound:
  "selectRandom_loop h ps m sel = Some p \<Longrightarrow> sel = Some p \<or> (p \<in> set ps \<and> eligible h p)"
  by (induction h ps m sel rule: selectRandom_loop.induct)
     (auto simp: eligible_def split: if_splits)

lemma LeastConnections_loop_sound:
  "LeastConnections_loop h ps m sel = Some p \<Longrightarrow> sel = Some p \<or> p \<in> set ps"
  by (induction h ps m sel rule: LeastConnections_loop.induct) (auto split: if_splits)

lemma LCW_candidates_sound:
  "c \<in> set (LCW_candidates h ps) \<Longrightarrow> fst c \<in> set ps \<and> eligible h (fst c)"
  by (induction ps) (auto simp: eligible_def Let_def split: if_splits)

lemma PLCW_candidates_sound:
  "c \<in> set (PLCW_candidates h ps) \<Longrightarrow> fst c \<in> set ps \<and> eligible h (fst c)"
  by (induction ps) (auto simp: eligible_def split: if_splits)

lemma Weight_available_fst:
  "fst (Weight_available h ps (av, tw)) = av @ filter (eligible h) ps"
  by (induction ps arbitrary: av tw) (auto simp: eligible_def)

lemma Weight_walk_sound: "Weight_walk h ps r cw = Some p \<Longrightarrow> p \<in> set ps"
  by (induction ps arbitrary: cw) (auto simp: Let_def split: if_splits)

lemma IPHash_sound:
  "IPHash_SelectBackend h bs req = Some p \<Longrightarrow> p \<in> set bs \<and> eligible h p"
  by (auto simp: IPHash_SelectBackend_def IPHash_choose_def IPHash_getClientIP_def
      selectRandom_def Let_def
      split: if_splits dest!: selectRandom_loop_sound)

lemma LeastConnections_sound:
  "LeastConnections_SelectBackend h bs req = Some p \<Longrightarrow> p \<in> set bs \<and> eligible h p"
  by (auto simp: LeastConnections_SelectBackend_def Let_def eligible_def
      split: if_splits dest!: LeastConnections_loop_sound)

lemma takeWhile_nth_mem:
  "i < length (takeWhile P xs) \<Longrightarrow> takeWhile P xs ! i \<in> set xs"
  by (meson nth_mem set_takeWhileD)

lemma sort_Slice_set [simp]: "set (sort_Slice key xs) = set xs"
  by (simp add: sort_Slice_def)

lemma sort_Slice_length [simp]: "length (sort_Slice key xs) = length xs"
  by (simp add: sort_Slice_def)

lemma sort_Slice_Nil [simp]: "sort_Slice key xs = [] \<longleftrightarrow> xs = []"
  by (metis length_0_conv sort_Slice_length)

lemma LCW_sound:
  assumes "LeastConnectionsWeight_SelectBackend h rnd bs req = Some p"
  shows "p \<in> set bs \<and> eligible h p"
proof -
  let ?cs = "LCW_candidates h bs"
  let ?ord = "sort_Slice snd ?cs"
  let ?same = "takeWhile (\<lambda>c. snd c = snd (?ord ! 0)) ?ord"
  from assms have ne: "?cs \<noteq> []"
    by (auto simp: LeastConnectionsWeight_SelectBackend_def Let_def split: if_splits)
  then have "?ord \<noteq> []" by simp
  then have "?same \<noteq> []" by (cases ?ord) auto
  then have len: "0 < length ?same" by simp
  define i where "i = (if length ?same = 1 then 0 else rnd mod length ?same)"
  have i: "i < length ?same" using len by (simp add: i_def)
  have p: "p = fst (?same ! i)"
    using assms ne
    by (simp add: LeastConnectionsWeight_SelectBackend_def Let_def i_def split: if_splits)
  have "?same ! i \<in> set ?ord" using i by (rule takeWhile_nth_mem)
  then have "?same ! i \<in> set ?cs" by simp
  then show ?thesis using LCW_candidates_sound p by blast
qed

lemma PLCW_sound:
  assumes "PerformanceLCW_SelectBackend h bs req = Some p"
  shows "p \<in> set bs \<and> eligible h p"
proof -
  let ?cs = "PLCW_candidates h bs"
  from assms have ne: "?cs \<noteq> []" and p: "p = fst (sort_Slice snd ?cs ! 0)"
    by (auto simp: PerformanceLCW_SelectBackend_def Let_def split: if_splits)
  have "sort_Slice snd ?cs ! 0 \<in> set (sort_Slice snd ?cs)"
    using ne by (intro nth_mem) simp
  then have "sort_Slice snd ?cs ! 0 \<in> set ?cs" by simp
  then show ?thesis using PLCW_candidates_sound p by blast
qed

lemma Weight_sound:
  assumes "Weight_SelectBackend h bs req = Some p"
  shows "p \<in> set bs \<and> eligible h p"
proof -
  obtain av tw where w: "Weight_available h bs ([], 0) = (av, tw)" by force
  have av: "av = filter (eligible h) bs"
    using Weight_available_fst [of h bs "[]" 0] w by simp
  from assms w have "av \<noteq> []" and "p \<in> set av"
    by (auto simp: Weight_SelectBackend_def Let_def split: if_splits option.splits
        dest: Weight_walk_sound)
  then show ?thesis by (simp add: av)
qed

lemmas sample_defs =
  sample_backend_def backend_zero_def IsActive_def ShouldDisconnect_def MarkForDisconnect_def
  IsConnectionLimitReached_def GetConnections_def MaxInt64_def

lemma IPHash_always_fallback:
  "IPHash_SelectBackend h bs req =
     selectRandom h (filter (\<lambda>p. \<not> IsConnectionLimitReached (h p)) bs)"
  by (simp add: IPHash_SelectBackend_def IPHash_choose_def IPHash_getClientIP_def
      selectRandom_def Let_def)

subsection \<open>C2: the selected backend is eligible\<close>

text \<open>
  C2: whatever the policy, the candidate slice, the store and the random draw,
  \<^verbatim>\<open>SelectBackend\<close> returns \<^verbatim>\<open>nil\<close> or a backend of the slice that is active, not
  marked for disconnect and not at its connection limit. For \<^verbatim>\<open>ip_hash\<close> this covers
  every path the source can take: its own filter drops only the backends at their limit,
  but its \<^verbatim>\<open>getClientIP\<close> returns the empty string for every request, so the
  selection is always made by \<^verbatim>\<open>selectRandom\<close>, which applies the whole filter, and
  the branch that indexes the slice by the hash is never entered.
\<close>

theorem C2_selected_backend_eligible:
  "SelectBackend bal h rnd bs req = Some p \<Longrightarrow>
   p \<in> set bs \<and> IsActive (h p) \<and> \<not> ShouldDisconnect (h p) \<and>
   \<not> IsConnectionLimitReached (h p)"
proof -
  assume sel: "SelectBackend bal h rnd bs req = Some p"
  have "p \<in> set bs \<and> eligible h p"
  proof (cases bal)
    case IPHashBalancer
    then show ?thesis using sel IPHash_sound by simp
  next
    case LeastConnectionsBalancer
    then show ?thesis using sel LeastConnections_sound by simp
  next
    case LeastConnectionsWeightBalancer
    then show ?thesis using sel LCW_sound by simp
  next
    case WeightBalancer
    then show ?thesis using sel Weight_sound by simp
  next
    case PerformanceLCWBalancer
    then show ?thesis using sel PLCW_sound by simp
  qed
  then show ?thesis by (simp add: eligible_def)
qed

lemma IPHash_store_drain: "SelectBackend IPHashBalancer store_drain 0 [0, 1] ctx0 = Some 1"
  by (simp add: IPHash_always_fallback selectRandom_def store_drain_def sample_defs)

theorem C2_selected_backend_eligible_witness:
  "SelectBackend IPHashBalancer store_drain 0 [0, 1] ctx0 = Some 1 \<and>
   1 \<in> set [0, 1 :: addr] \<and> IsActive (store_drain 1) \<and> \<not> ShouldDisconnect (store_drain 1) \<and>
   \<not> IsConnectionLimitReached (store_drain 1) \<and> ShouldDisconnect (store_drain 0)"
proof -
  have d: "ShouldDisconnect (store_drain 0)"
    by (simp add: store_drain_def sample_defs)
  show ?thesis
    using C2_selected_backend_eligible [OF IPHash_store_drain] IPHash_store_drain d by simp
qed

subsection \<open>C7: \<^verbatim>\<open>ip_hash\<close> is decided by the connection gauges\<close>

text \<open>
  C7 does not hold of the code. For every request \<^verbatim>\<open>ip_hash\<close> is the
  least-connections walk of \<^verbatim>\<open>selectRandom\<close> over the backends below their limit; no
  hash of the client address is ever taken. With the same two eligible backends and the
  same request from 203.0.113.7, the choice moves from the first backend to the second
  when only the gauge of the first changes from 0 to 2.
\<close>

theorem C7_ip_hash_follows_connections:
  "IPHash_SelectBackend h bs req =
     selectRandom h (filter (\<lambda>p. \<not> IsConnectionLimitReached (h p)) bs) \<and>
   RemoteIP ctx0 = ''203.0.113.7'' \<and>
   filter (eligible store_a) [0, 1] = [0, 1] \<and>
   filter (eligible store_b) [0, 1] = [0, 1] \<and>
   IPHash_SelectBackend store_a [0, 1] ctx0 = Some 0 \<and>
   IPHash_SelectBackend store_b [0, 1] ctx0 = Some 1"
  by (simp add: IPHash_always_fallback selectRandom_def store_a_def store_b_def eligible_def
      ctx0_def sample_defs)

text \<open>
  The branch that indexes by the hash is in the model as it is in the source. It would be
  entered only with a non-empty client address, which \<^verbatim>\<open>getClientIP\<close> never returns.
  Entered with 203.0.113.7 it takes the FNV-1a hash modulo the count and reads no flag: of
  a backend marked for disconnect and a clean one it returns the marked one.
\<close>

lemma IPHash_choose_hash_branch:
  "hashIP ''203.0.113.7'' = 2412736736 \<and>
   IPHash_choose store_drain [0, 1] ''203.0.113.7'' = Some 0 \<and>
   ShouldDisconnect (store_drain 0)"
proof -
  have hsh: "hashIP ''203.0.113.7'' = 2412736736"
    by (simp add: hashIP_def New32a_def)
  have len: "length [0 :: addr, 1] = 2" by simp
  have idx: "unat (2412736736 :: uint32) mod 2 = 0" by simp
  have "IPHash_choose store_drain [0, 1] ''203.0.113.7'' = Some 0"
    unfolding IPHash_choose_def Let_def hsh len idx by simp
  moreover have "ShouldDisconnect (store_drain 0)"
    by (simp add: store_drain_def sample_defs)
  ultimately show ?thesis using hsh by simp
qed

subsection \<open>C8: \<^verbatim>\<open>weight\<close> always returns the first eligible backend\<close>

lemma wrap_int_id: "- (2 ^ 63) \<le> x \<Longrightarrow> x < 2 ^ 63 \<Longrightarrow> wrap_int x = x"
  by (simp add: wrap_int_def)

lemma Weight_walk_first:
  "0 < Weight (h p) \<Longrightarrow> Weight (h p) < 2 ^ 63 \<Longrightarrow> Weight_walk h (p # ps) 0 0 = Some p"
  by (simp add: wrap_int_id)

lemma Weight_first_eligible:
  assumes "filter (eligible h) bs = p # rest" and "0 < Weight (h p)" and "Weight (h p) < 2 ^ 63"
    and "Weight_SelectBackend h bs req = Some q"
  shows "q = p"
proof -
  obtain av tw where w: "Weight_available h bs ([], 0) = (av, tw)" by force
  have av: "av = p # rest"
    using Weight_available_fst [of h bs "[]" 0] w assms(1) by simp
  have "bs \<noteq> []" using assms(1) by auto
  then show ?thesis
    using assms(2-4) w Weight_walk_first [of h p rest]
    by (simp add: Weight_SelectBackend_def av split: if_splits)
qed

text \<open>
  C8 does not hold of the code. The cursor \<open>r\<close> of the walk is the constant 0, so with
  three unbounded backends of weights 1, 2 and 3 every call returns the first one,
  whatever the three gauges and whatever the request. In general, when the first eligible
  backend has a positive weight, no call returns any other backend.
\<close>

theorem C8_weight_always_first:
  "Weight_SelectBackend (weighted_store c0 c1 c2) [0, 1, 2] req = Some 0 \<and>
   (filter (eligible h) bs = p # rest \<and> 0 < Weight (h p) \<and> Weight (h p) < 2 ^ 63 \<and>
    Weight_SelectBackend h bs req' = Some q \<longrightarrow> q = p)"
proof (intro conjI impI)
  show "Weight_SelectBackend (weighted_store c0 c1 c2) [0, 1, 2] req = Some 0"
    by (simp add: Weight_SelectBackend_def weighted_store_def wrap_int_def sample_defs)
  show "q = p"
    if "filter (eligible h) bs = p # rest \<and> 0 < Weight (h p) \<and> Weight (h p) < 2 ^ 63 \<and>
      Weight_SelectBackend h bs req' = Some q"
    using that Weight_first_eligible by blast
qed

theorem C8_weight_always_first_witness:
  "filter (eligible (weighted_store 0 0 0)) [0, 1, 2] = [0, 1, 2] \<and>
   0 < Weight (weighted_store 0 0 0 0) \<and> Weight (weighted_store 0 0 0 0) < 2 ^ 63 \<and>
   Weight_SelectBackend (weighted_store 0 0 0) [0, 1, 2] ctx0 = Some 0"
proof -
  have f: "filter (eligible (weighted_store 0 0 0)) [0, 1, 2] = 0 # [1, 2]"
    by (simp add: eligible_def weighted_store_def sample_defs)
  have w: "0 < Weight (weighted_store 0 0 0 0)" "Weight (weighted_store 0 0 0 0) < 2 ^ 63"
    by (simp_all add: weighted_store_def sample_defs)
  show ?thesis
    using C8_weight_always_first [of 0 0 0 ctx0 "weighted_store 0 0 0" "[0, 1, 2]" 0 "[1, 2]" ctx0 0]
      f w by simp
qed

section \<open>Properties of the dispatcher\<close>

lemmas ipv4_defs = ipv4_def ipv4_ParseIP_def ipv4_ParseCIDR_def ipv4_Contains_def dec_field_def
  digit_val_def IsTrustedProxy_def

lemmas cfg_defs = cfg_routes_def server0_def rule_root_def rule_api_def um_default_def
  ctx0_def ctx_xff_def

subsection \<open>C4: routing takes the first matching rule of the map walk\<close>

lemma findRoutingRule_range_find:
  "findRoutingRule_range rs path =
     map_option snd (find (\<lambda>nr. strings_HasPrefix path (Path (snd nr))) rs)"
  by (induction rs) auto

text \<open>
  C4, as stated, fails: with the rules \<open>/\<close> and \<open>/api\<close> and the path
  \<open>/api/x\<close>, a walk of the map that meets \<open>/\<close> first returns the rule
  \<open>/\<close>, though \<open>/api\<close> matches and is longer; a walk that meets \<open>/api\<close>
  first returns \<open>/api\<close>. The result depends on the iteration order.
\<close>

theorem C4_counterexample:
  "findRoutingRule (cfg_routes [(''root'', rule_root), (''api'', rule_api)]) ''/api/x''
     = Some rule_root \<and>
   strings_HasPrefix ''/api/x'' (Path rule_api) \<and>
   length (Path rule_root) < length (Path rule_api) \<and>
   findRoutingRule (cfg_routes [(''api'', rule_api), (''root'', rule_root)]) ''/api/x''
     = Some rule_api"
  by (simp add: findRoutingRule_def strings_HasPrefix_def cfg_defs)

lemma findRoutingRule_range_None:
  "findRoutingRule_range rs path = None \<longleftrightarrow>
     (\<forall>nr \<in> set rs. \<not> strings_HasPrefix path (Path (snd nr)))"
  by (induction rs) (auto split: if_splits)

lemma findRoutingRule_range_Some:
  "findRoutingRule_range rs path = Some r \<Longrightarrow>
     r \<in> snd ` set rs \<and> strings_HasPrefix path (Path r)"
  by (induction rs) (force split: if_splits)+

text \<open>
  C4, amended: the dispatcher selects the first rule, in the order of the map walk, whose
  path prefix is a prefix of the request path; so whenever some rule matches, a matching
  rule is chosen (which one is not determined when several match). If no rule matches,
  the rule named \<open>default\<close> is used when it exists; otherwise, and only then, the
  request is answered 404 \<open>Not Found\<close>.
\<close>

theorem C4_first_matching_rule:
  "findRoutingRule_range (Routing cfg) path =
     map_option snd (find (\<lambda>nr. strings_HasPrefix path (Path (snd nr))) (Routing cfg)) \<and>
   (findRoutingRule cfg path = Some r \<longrightarrow>
      (r \<in> snd ` set (Routing cfg) \<and> strings_HasPrefix path (Path r)) \<or>
      ((\<forall>nr \<in> set (Routing cfg). \<not> strings_HasPrefix path (Path (snd nr))) \<and>
       map_of (Routing cfg) ''default'' = Some r)) \<and>
   ((\<exists>nr \<in> set (Routing cfg). strings_HasPrefix path (Path (snd nr))) \<longrightarrow>
      (\<exists>r'. findRoutingRule cfg path = Some r' \<and> r' \<in> snd ` set (Routing cfg) \<and>
            strings_HasPrefix path (Path r'))) \<and>
   (findRoutingRule cfg path = None \<longleftrightarrow>
      (\<forall>nr \<in> set (Routing cfg). \<not> strings_HasPrefix path (Path (snd nr))) \<and>
      map_of (Routing cfg) ''default'' = None) \<and>
   (handleRequest cfg um h rnd ctx = Error ''Not Found'' 404 \<longleftrightarrow>
      findRoutingRule cfg (ReqPath ctx) = None)"
proof (intro conjI impI)
  let ?m = "\<lambda>nr. strings_HasPrefix path (Path (snd nr))"
  let ?f = "findRoutingRule_range (Routing cfg) path"
  note none = findRoutingRule_range_None [of "Routing cfg" path]
  show "?f = map_option snd (find ?m (Routing cfg))"
    by (rule findRoutingRule_range_find)
  show "(r \<in> snd ` set (Routing cfg) \<and> strings_HasPrefix path (Path r)) \<or>
      ((\<forall>nr \<in> set (Routing cfg). \<not> ?m nr) \<and> map_of (Routing cfg) ''default'' = Some r)"
    if sel: "findRoutingRule cfg path = Some r"
  proof (cases ?f)
    case None
    then show ?thesis using sel none by (simp add: findRoutingRule_def)
  next
    case (Some r')
    then have "r' = r" using sel by (simp add: findRoutingRule_def)
    then show ?thesis using findRoutingRule_range_Some [OF Some] by simp
  qed
  show "\<exists>r'. findRoutingRule cfg path = Some r' \<and> r' \<in> snd ` set (Routing cfg) \<and>
            strings_HasPrefix path (Path r')"
    if "\<exists>nr \<in> set (Routing cfg). ?m nr"
  proof (cases ?f)
    case None
    then show ?thesis using that none by simp
  next
    case (Some r')
    then show ?thesis
      using findRoutingRule_range_Some [OF Some] by (simp add: findRoutingRule_def)
  qed
  show "findRoutingRule cfg path = None \<longleftrightarrow>
      (\<forall>nr \<in> set (Routing cfg). \<not> ?m nr) \<and> map_of (Routing cfg) ''default'' = None"
  proof (cases ?f)
    case None
    then show ?thesis using none by (simp add: findRoutingRule_def)
  next
    case (Some r')
    then show ?thesis using none by (simp add: findRoutingRule_def)
  qed
  show "handleRequest cfg um h rnd ctx = Error ''Not Found'' 404 \<longleftrightarrow>
      findRoutingRule cfg (ReqPath ctx) = None"
    by (auto simp: handleRequest_def Let_def split: option.splits)
qed

theorem C4_first_matching_rule_witness:
  "findRoutingRule (cfg_routes [(''root'', rule_root), (''api'', rule_api)]) ''/api/x''
     = Some rule_root \<and>
   rule_root \<in> snd ` set (Routing (cfg_routes [(''root'', rule_root), (''api'', rule_api)])) \<and>
   strings_HasPrefix ''/api/x'' (Path rule_root) \<and>
   findRoutingRule (cfg_routes []) (ReqPath ctx0) = None \<and>
   handleRequest (cfg_routes []) um_default store_a 0 ctx0 = Error ''Not Found'' 404"
proof -
  let ?cfg = "cfg_routes [(''root'', rule_root), (''api'', rule_api)]"
  have 1: "findRoutingRule ?cfg ''/api/x'' = Some rule_root"
    by (simp add: findRoutingRule_def strings_HasPrefix_def cfg_defs)
  have 2: "\<not> (\<forall>nr \<in> set (Routing ?cfg). \<not> strings_HasPrefix ''/api/x'' (Path (snd nr)))"
    by (simp add: strings_HasPrefix_def cfg_defs)
  have 3: "(\<forall>nr \<in> set (Routing (cfg_routes [])). \<not> strings_HasPrefix (ReqPath ctx0) (Path (snd nr))) \<and>
      map_of (Routing (cfg_routes [])) ''default'' = None"
    by (simp add: cfg_defs)
  from C4_first_matching_rule [of ?cfg "''/api/x''" rule_root] 1 2
  have a: "rule_root \<in> snd ` set (Routing ?cfg) \<and> strings_HasPrefix ''/api/x'' (Path rule_root)"
    by blast
  from C4_first_matching_rule [of "cfg_routes []" "ReqPath ctx0" rule_root um_default store_a 0 ctx0] 3
  have b: "findRoutingRule (cfg_routes []) (ReqPath ctx0) = None \<and>
     handleRequest (cfg_routes []) um_default store_a 0 ctx0 = Error ''Not Found'' 404"
    by blast
  from 1 a b show ?thesis by blast
qed

subsection \<open>C3: the body of the 503 response\<close>

lemma selectRandom_loop_none:
  "\<forall>p \<in> set ps. \<not> eligible h p \<Longrightarrow> selectRandom_loop h ps m sel = sel"
  by (induction ps) (auto simp: eligible_def)

lemma LCW_candidates_none: "\<forall>p \<in> set ps. \<not> eligible h p \<Longrightarrow> LCW_candidates h ps = []"
  by (induction ps) (auto simp: eligible_def)

lemma PLCW_candidates_none: "\<forall>p \<in> set ps. \<not> eligible h p \<Longrightarrow> PLCW_candidates h ps = []"
  by (induction ps) (auto simp: eligible_def)

lemma filter_eligible_none: "\<forall>p \<in> set ps. \<not> eligible h p \<Longrightarrow> filter (eligible h) ps = []"
  by (induction ps) auto

lemma SelectBackend_none:
  assumes "\<forall>p \<in> set bs. \<not> eligible h p"
  shows "SelectBackend bal h rnd bs ctx = None"
proof (cases bal)
  case IPHashBalancer
  have "\<forall>p \<in> set (filter (\<lambda>p. \<not> IsConnectionLimitReached (h p)) bs). \<not> eligible h p"
    using assms by simp
  then show ?thesis
    using IPHashBalancer
    by (simp add: IPHash_always_fallback selectRandom_def selectRandom_loop_none)
next
  case LeastConnectionsBalancer
  have "filter (\<lambda>p. IsActive (h p) \<and> \<not> ShouldDisconnect (h p) \<and>
                          \<not> IsConnectionLimitReached (h p)) bs = []"
    using filter_eligible_none [OF assms] by (simp add: eligible_def [abs_def])
  then show ?thesis
    using LeastConnectionsBalancer by (simp add: LeastConnections_SelectBackend_def)
next
  case LeastConnectionsWeightBalancer
  then show ?thesis
    using LCW_candidates_none [OF assms]
    by (simp add: LeastConnectionsWeight_SelectBackend_def)
next
  case WeightBalancer
  obtain av tw where w: "Weight_available h bs ([], 0) = (av, tw)" by force
  have "av = []"
    using Weight_available_fst [of h bs "[]" 0] w filter_eligible_none [OF assms] by simp
  then show ?thesis
    using WeightBalancer w by (simp add: Weight_SelectBackend_def)
next
  case PerformanceLCWBalancer
  then show ?thesis
    using PLCW_candidates_none [OF assms] by (simp add: PerformanceLCW_SelectBackend_def)
qed

lemma handleRequest_all_drain:
  "handleRequest (cfg_routes [(''default'', rule_root)]) um_default store_all_drain 0 ctx0 =
     Error ''Service Unavailable (All backends at connection limit)'' 503"
  by (simp add: handleRequest_def findRoutingRule_def strings_HasPrefix_def GetUpstream_def
      GetBackends_def determineLBType_def detectProtocol_def GetBalancer_def
      LeastConnections_SelectBackend_def store_all_drain_def cfg_defs sample_defs)

text \<open>
  C3, as stated, fails: with two active, unbounded backends that are both marked for
  disconnect, the policy returns \<^verbatim>\<open>nil\<close> and the dispatcher answers with the
  connection-limit body, though no backend is at its limit.
\<close>

theorem C3_counterexample:
  "handleRequest (cfg_routes [(''default'', rule_root)]) um_default store_all_drain 0 ctx0 =
     Error ''Service Unavailable (All backends at connection limit)'' 503 \<and>
   GetBackends store_all_drain (upstreams um_default ! 0) = [0, 1] \<and>
   \<not> IsConnectionLimitReached (store_all_drain 0) \<and>
   \<not> IsConnectionLimitReached (store_all_drain 1) \<and>
   ShouldDisconnect (store_all_drain 0) \<and> ShouldDisconnect (store_all_drain 1)"
  using handleRequest_all_drain
  by (simp add: GetBackends_def store_all_drain_def um_default_def sample_defs)

text \<open>
  C3, amended: the dispatcher answers 503 with the body
  \<open>Service Unavailable (All backends at connection limit)\<close> exactly when the policy
  returns none on a non-empty snapshot of live backends, whatever excluded the candidates
  (a policy returns none whenever no candidate passes the eligibility filter: limit
  reached, marked for disconnect, or inactive); it answers 503 with the generic body
  \<open>Service Unavailable\<close> exactly when the rule's upstream is unknown or the snapshot
  of live backends is empty.
\<close>

theorem C3_none_gives_limit_message:
  "(handleRequest cfg um h rnd ctx =
      Error ''Service Unavailable (All backends at connection limit)'' 503 \<longleftrightarrow>
    (\<exists>rule u. findRoutingRule cfg (ReqPath ctx) = Some rule \<and>
       GetUpstream um (Upstream rule) = Some u \<and> GetBackends h u \<noteq> [] \<and>
       SelectBackend (GetBalancer (determineLBType rule ctx)) h rnd (GetBackends h u) ctx = None)) \<and>
   (handleRequest cfg um h rnd ctx = Error ''Service Unavailable'' 503 \<longleftrightarrow>
    (\<exists>rule. findRoutingRule cfg (ReqPath ctx) = Some rule \<and>
       (case GetUpstream um (Upstream rule) of
          None \<Rightarrow> True
        | Some u \<Rightarrow> GetBackends h u = []))) \<and>
   ((\<forall>p \<in> set bs. \<not> eligible h p) \<longrightarrow> SelectBackend bal h rnd bs ctx = None)"
proof (intro conjI impI)
  show "handleRequest cfg um h rnd ctx =
      Error ''Service Unavailable (All backends at connection limit)'' 503 \<longleftrightarrow>
    (\<exists>rule u. findRoutingRule cfg (ReqPath ctx) = Some rule \<and>
       GetUpstream um (Upstream rule) = Some u \<and> GetBackends h u \<noteq> [] \<and>
       SelectBackend (GetBalancer (determineLBType rule ctx)) h rnd (GetBackends h u) ctx = None)"
    by (auto simp: handleRequest_def Let_def split: option.splits)
  show "handleRequest cfg um h rnd ctx = Error ''Service Unavailable'' 503 \<longleftrightarrow>
    (\<exists>rule. findRoutingRule cfg (ReqPath ctx) = Some rule \<and>
       (case GetUpstream um (Upstream rule) of
          None \<Rightarrow> True
        | Some u \<Rightarrow> GetBackends h u = []))"
    by (auto simp: handleRequest_def Let_def split: option.splits)
  show "SelectBackend bal h rnd bs ctx = None" if "\<forall>p \<in> set bs. \<not> eligible h p"
    using that by (rule SelectBackend_none)
qed

theorem C3_none_gives_limit_message_witness:
  "\<not> eligible store_all_drain 0 \<and> \<not> eligible store_all_drain 1 \<and>
   SelectBackend LeastConnectionsBalancer store_all_drain 0 [0, 1] ctx0 = None \<and>
   handleRequest (cfg_routes [(''default'', rule_root)]) um_default store_all_drain 0 ctx0 =
     Error ''Service Unavailable (All backends at connection limit)'' 503 \<and>
   handleRequest (cfg_routes [(''default'', rule_root)]) um_default store_inactive 0 ctx0 =
     Error ''Service Unavailable'' 503"
proof -
  let ?cfg = "cfg_routes [(''default'', rule_root)]"
  have e: "\<forall>p \<in> set [0, 1]. \<not> eligible store_all_drain p"
    by (simp add: eligible_def store_all_drain_def sample_defs)
  have r: "findRoutingRule ?cfg (ReqPath ctx0) = Some rule_root"
    by (simp add: findRoutingRule_def strings_HasPrefix_def cfg_defs)
  have u: "GetUpstream um_default (Upstream rule_root) = Some (upstreams um_default ! 0)"
    by (simp add: GetUpstream_def cfg_defs)
  have g: "GetBackends store_all_drain (upstreams um_default ! 0) = [0, 1]"
    by (simp add: GetBackends_def store_all_drain_def um_default_def sample_defs)
  have g': "GetBackends store_inactive (upstreams um_default ! 0) = []"
    by (simp add: GetBackends_def store_inactive_def um_default_def SetActive_def sample_defs)
  have b: "GetBalancer (determineLBType rule_root ctx0) = LeastConnectionsBalancer"
    by (simp add: determineLBType_def detectProtocol_def GetBalancer_def cfg_defs)
  note t = C3_none_gives_limit_message
  have n: "SelectBackend LeastConnectionsBalancer store_all_drain 0 [0, 1] ctx0 = None"
    using t [of ?cfg um_default store_all_drain 0 ctx0 "[0, 1]" LeastConnectionsBalancer] e
    by blast
  have 1: "handleRequest ?cfg um_default store_all_drain 0 ctx0 =
     Error ''Service Unavailable (All backends at connection limit)'' 503"
    using t [of ?cfg um_default store_all_drain 0 ctx0 "[0, 1]" LeastConnectionsBalancer]
      r u g b n by auto
  have 2: "handleRequest ?cfg um_default store_inactive 0 ctx0 = Error ''Service Unavailable'' 503"
    using t [of ?cfg um_default store_inactive 0 ctx0 "[]" LeastConnectionsBalancer]
      r u g' by auto
  from e n 1 2 show ?thesis by simp
qed

subsection \<open>C5: client address resolution\<close>

text \<open>
  C5 does not hold of the code. With \<open>X-Real-IP\<close> absent and the proxies
  \<open>127.0.0.1/32\<close> and \<open>10.0.0.0/8\<close> trusted:
  \<^item> \<open>X-Forwarded-For: 198.51.100.2\<close> from the trusted peer 10.0.0.1 resolves to
    the peer, since a header without a comma is skipped;
  \<^item> \<open>X-Forwarded-For: 198.51.100.2, 10.0.0.1\<close> from the same trusted peer resolves
    to the peer too, since the trust check is made on the header's first element and
    not on the peer;
  \<^item> \<open>X-Forwarded-For: 10.9.9.9, 198.51.100.2\<close> from the untrusted peer 203.0.113.7
    resolves to 10.9.9.9, the client's own claim.
\<close>

theorem C5_forwarded_for_handling:
  "Peek (ctx_xff ''198.51.100.2'' ''10.0.0.1'') (RealIPHeader server0) = '''' \<and>
   IsTrustedProxy ipv4 ''10.0.0.1'' (TrustedProxies server0) \<and>
   getClientIP ipv4 (cfg_routes []) (ctx_xff ''198.51.100.2'' ''10.0.0.1'') = ''10.0.0.1'' \<and>
   getClientIP ipv4 (cfg_routes []) (ctx_xff ''198.51.100.2, 10.0.0.1'' ''10.0.0.1'')
     = ''10.0.0.1'' \<and>
   \<not> IsTrustedProxy ipv4 ''203.0.113.7'' (TrustedProxies server0) \<and>
   getClientIP ipv4 (cfg_routes []) (ctx_xff ''10.9.9.9, 198.51.100.2'' ''203.0.113.7'')
     = ''10.9.9.9''"
  by (simp add: getClientIP_def strings_Index_def strings_TrimSpace_def isSpace_def
      cfg_defs ipv4_defs)

section \<open>Properties of the configuration manager and the update handler\<close>

subsection \<open>C6: \<^verbatim>\<open>UpdateConfig\<close>\<close>

lemma validateConfig_backend_None:
  "validateConfig_backend h u ps = None \<longleftrightarrow>
     (\<forall>p \<in> set ps. Host (h p) \<noteq> '''' \<and> 1 \<le> Port (h p) \<and> Port (h p) \<le> 65535)"
  by (induction ps) auto

lemma validateConfig_backends_None:
  "validateConfig_backends h bks = None \<longleftrightarrow>
     (\<forall>ub \<in> set bks. snd ub \<noteq> [] \<and>
        (\<forall>p \<in> set (snd ub). Host (h p) \<noteq> '''' \<and> 1 \<le> Port (h p) \<and> Port (h p) \<le> 65535))"
proof (induction bks)
  case Nil
  then show ?case by simp
next
  case (Cons ub bks)
  obtain u bs where ub: "ub = (u, bs)" by (cases ub)
  show ?case
    using Cons.IH validateConfig_backend_None [of h u bs]
    by (auto simp: ub split: option.splits)
qed

lemma validateConfig_routing_None:
  "validateConfig_routing bks rs = None \<longleftrightarrow>
     (\<forall>nr \<in> set rs. Upstream (snd nr) \<noteq> '''' \<and> Upstream (snd nr) \<in> fst ` set bks)"
proof (induction rs)
  case Nil
  then show ?case by simp
next
  case (Cons nr rs)
  obtain n r where nr: "nr = (n, r)" by (cases nr)
  show ?case
    using Cons.IH by (auto simp: nr map_of_eq_None_iff)
qed

lemma validateConfig_None:
  "validateConfig h cfg = None \<longleftrightarrow> \<not> listed_violation h cfg \<and> \<not> empty_upstream_name cfg"
proof -
  have b: "validateConfig_backends h (Backends cfg) = None \<longleftrightarrow>
      \<not> ((\<exists>ub \<in> set (Backends cfg). snd ub = []) \<or>
         (\<exists>ub \<in> set (Backends cfg). \<exists>p \<in> set (snd ub).
            Host (h p) = '''' \<or> Port (h p) < 1 \<or> 65535 < Port (h p)))"
    unfolding validateConfig_backends_None by (auto simp: not_le not_less)
  have r: "validateConfig_routing (Backends cfg) (Routing cfg) = None \<longleftrightarrow>
      \<not> ((\<exists>nr \<in> set (Routing cfg). Upstream (snd nr) \<notin> fst ` set (Backends cfg)) \<or>
         empty_upstream_name cfg)"
    unfolding validateConfig_routing_None empty_upstream_name_def by auto
  show ?thesis
  proof (cases "validateConfig_backends h (Backends cfg)")
    case None
    then show ?thesis
      using b r unfolding validateConfig_def listed_violation_def
      by (auto split: if_splits)
  next
    case (Some e)
    then show ?thesis
      using b unfolding validateConfig_def listed_violation_def
      by (auto split: if_splits)
  qed
qed

lemma saveConfig_True: "fst (saveConfig io cfg file) \<longleftrightarrow> io = Saved"
  by (cases io) (simp_all add: saveConfig_def)

text \<open>
  C6, as stated, fails in the direction from error to violation. A candidate that breaks
  none of the listed rules is refused when the write of the file fails; and a candidate
  whose routing rule names the empty upstream, which has a backend entry, is refused
  by the code's check for an empty upstream name.
\<close>

theorem C6_counterexample:
  "\<not> listed_violation store_a cfg_ok \<and>
   fst (UpdateConfig store_a (WriteFailed None) cfg_ok world0) = Some FailedToSaveConfig \<and>
   \<not> listed_violation store_a cfg_empty_name \<and>
   fst (UpdateConfig store_a Saved cfg_empty_name world0) =
     Some (InvalidConfig (RoutingUpstreamRequired ''r''))"
  by (simp add: listed_violation_def UpdateConfig_def validateConfig_def saveConfig_def
      cfg_ok_def cfg_empty_name_def store_a_def cfg_defs sample_defs)

text \<open>
  C6, amended: \<^verbatim>\<open>UpdateConfig\<close> returns an invalid-config error exactly when the
  candidate violates one of the listed rules or has a routing rule with an empty upstream
  name, and then neither the live configuration nor the file is modified. For a valid
  candidate it returns an error exactly when saving fails, and then the live
  configuration (and the watchers) are not modified. It succeeds exactly when the
  candidate is valid and is saved; then the live configuration is the candidate and the
  file holds it.
\<close>

theorem C6_update_config:
  "(validateConfig h cfg = None \<longleftrightarrow> \<not> listed_violation h cfg \<and> \<not> empty_upstream_name cfg) \<and>
   ((\<exists>e. fst (UpdateConfig h io cfg w) = Some (InvalidConfig e)) \<longleftrightarrow>
      listed_violation h cfg \<or> empty_upstream_name cfg) \<and>
   (listed_violation h cfg \<or> empty_upstream_name cfg \<longrightarrow> snd (UpdateConfig h io cfg w) = w) \<and>
   (fst (UpdateConfig h io cfg w) = Some FailedToSaveConfig \<longleftrightarrow>
      \<not> listed_violation h cfg \<and> \<not> empty_upstream_name cfg \<and> io \<noteq> Saved) \<and>
   (fst (UpdateConfig h io cfg w) = Some FailedToSaveConfig \<longrightarrow>
      manager (snd (UpdateConfig h io cfg w)) = manager w) \<and>
   (fst (UpdateConfig h io cfg w) = None \<longleftrightarrow>
      \<not> listed_violation h cfg \<and> \<not> empty_upstream_name cfg \<and> io = Saved) \<and>
   (fst (UpdateConfig h io cfg w) = None \<longrightarrow>
      config (manager (snd (UpdateConfig h io cfg w))) = cfg \<and>
      disk (snd (UpdateConfig h io cfg w)) = Some cfg)"
proof (cases "validateConfig h cfg")
  case None
  then have v: "\<not> listed_violation h cfg \<and> \<not> empty_upstream_name cfg"
    using validateConfig_None by simp
  show ?thesis
  proof (cases io)
    case Saved
    then show ?thesis using None v by (simp add: UpdateConfig_def saveConfig_def)
  next
    case MarshalFailed
    then show ?thesis using None v by (simp add: UpdateConfig_def saveConfig_def)
  next
    case (WriteFailed file')
    then show ?thesis using None v by (simp add: UpdateConfig_def saveConfig_def)
  qed
next
  case (Some e)
  then have v: "listed_violation h cfg \<or> empty_upstream_name cfg"
    using validateConfig_None [of h cfg] by auto
  show ?thesis using Some v by (auto simp: UpdateConfig_def)
qed

theorem C6_update_config_witness:
  "listed_violation store_a cfg_bad_port \<and>
   fst (UpdateConfig store_a Saved cfg_bad_port world0) = Some (InvalidConfig (InvalidServerPort 0)) \<and>
   snd (UpdateConfig store_a Saved cfg_bad_port world0) = world0 \<and>
   fst (UpdateConfig store_a Saved cfg_ok world0) = None \<and>
   config (manager (snd (UpdateConfig store_a Saved cfg_ok world0))) = cfg_ok \<and>
   fst (UpdateConfig store_a MarshalFailed cfg_ok world0) = Some FailedToSaveConfig \<and>
   manager (snd (UpdateConfig store_a MarshalFailed cfg_ok world0)) = manager world0"
proof -
  have bad: "listed_violation store_a cfg_bad_port"
    by (simp add: listed_violation_def cfg_bad_port_def cfg_ok_def cfg_defs)
  have e: "fst (UpdateConfig store_a Saved cfg_bad_port world0) =
      Some (InvalidConfig (InvalidServerPort 0))"
    by (simp add: UpdateConfig_def validateConfig_def cfg_bad_port_def cfg_ok_def cfg_defs)
  have ok: "\<not> listed_violation store_a cfg_ok \<and> \<not> empty_upstream_name cfg_ok"
    by (simp add: listed_violation_def empty_upstream_name_def cfg_ok_def store_a_def
        cfg_defs sample_defs)
  note t = C6_update_config
  have 1: "snd (UpdateConfig store_a Saved cfg_bad_port world0) = world0"
    using t [of store_a cfg_bad_port Saved world0] bad by blast
  have 2: "fst (UpdateConfig store_a Saved cfg_ok world0) = None"
    using t [of store_a cfg_ok Saved world0] ok by blast
  have 3: "config (manager (snd (UpdateConfig store_a Saved cfg_ok world0))) = cfg_ok"
    using t [of store_a cfg_ok Saved world0] 2 by blast
  have 4: "fst (UpdateConfig store_a MarshalFailed cfg_ok world0) = Some FailedToSaveConfig"
    using t [of store_a cfg_ok MarshalFailed world0] ok by blast
  have 5: "manager (snd (UpdateConfig store_a MarshalFailed cfg_ok world0)) = manager world0"
    using t [of store_a cfg_ok MarshalFailed world0] 4 by blast
  from bad e 1 2 3 4 5 show ?thesis by blast
qed

subsection \<open>C9: updating a backend's connection limit\<close>

lemma GetBackends_MaxConn_update:
  "GetBackends (h(p := (h p)\<lparr>MaxConn := n\<rparr>)) u = GetBackends h u"
  unfolding GetBackends_def by (rule filter_cong) (auto simp: IsActive_def)

lemma GetBackends_iff:
  "p \<in> set (GetBackends h u) \<longleftrightarrow> p \<in> set (backends u) \<and> IsActive (h p) \<and> Active (h p)"
  by (auto simp: GetBackends_def)

lemma find_None_GetBackends:
  "find (\<lambda>p. ID (h p) = bid) (GetBackends h u) = None \<longleftrightarrow>
     \<not> (\<exists>p \<in> set (backends u). IsActive (h p) \<and> Active (h p) \<and> ID (h p) = bid)"
  by (auto simp: find_None_iff GetBackends_iff)

text \<open>
  C9, as stated, fails: for a backend that is in the registry under the given upstream
  and id but whose active flag is false, the handler answers 404
  \<open>backend not found\<close> and changes nothing.
\<close>

theorem C9_counterexample:
  "handleUpdateBackend um_default store_inactive_a ''PUT'' (Decoded update_a) =
     (HttpError ''backend not found'' 404, store_inactive_a) \<and>
   GetUpstream um_default ''default'' = Some (upstreams um_default ! 0) \<and>
   0 \<in> set (backends (upstreams um_default ! 0)) \<and>
   ID (store_inactive_a 0) = ''a'' \<and> Active (store_inactive_a 0) = False"
  by (simp add: handleUpdateBackend_def GetUpstream_def GetBackends_def update_a_def
      store_inactive_a_def SetActive_def cfg_defs sample_defs)

text \<open>
  C9, amended: for a \<^verbatim>\<open>PUT\<close> whose body decodes to non-empty ids, the handler fails
  with 404 exactly when the upstream name is unknown or the upstream has no active backend
  with that id, and succeeds otherwise. On success the first such backend of the live
  snapshot has \<open>max_conn\<close> equal to the new value, nothing else in the store
  changes, and the snapshot the next selection takes is the same list of backends, read
  from the updated store.
\<close>

theorem C9_update_backend:
  assumes "UpstreamID req \<noteq> ''''" and "BackendID req \<noteq> ''''"
  shows
  "((\<exists>msg. fst (handleUpdateBackend um h ''PUT'' (Decoded req)) = HttpError msg 404) \<longleftrightarrow>
      (case GetUpstream um (UpstreamID req) of
         None \<Rightarrow> True
       | Some u \<Rightarrow> \<not> (\<exists>p \<in> set (backends u).
                       IsActive (h p) \<and> Active (h p) \<and> ID (h p) = BackendID req))) \<and>
   ((\<exists>msg. fst (handleUpdateBackend um h ''PUT'' (Decoded req)) = HttpError msg 404) \<or>
    fst (handleUpdateBackend um h ''PUT'' (Decoded req)) =
      HttpJSON True ''Backend updated successfully'') \<and>
   (\<forall>u. GetUpstream um (UpstreamID req) = Some u \<and>
        fst (handleUpdateBackend um h ''PUT'' (Decoded req)) =
          HttpJSON True ''Backend updated successfully'' \<longrightarrow>
        (\<exists>p \<in> set (GetBackends h u).
           find (\<lambda>q. ID (h q) = BackendID req) (GetBackends h u) = Some p \<and>
           snd (handleUpdateBackend um h ''PUT'' (Decoded req)) =
             h(p := (h p)\<lparr>MaxConn := ReqMaxConn req\<rparr>) \<and>
           MaxConn (snd (handleUpdateBackend um h ''PUT'' (Decoded req)) p) = ReqMaxConn req \<and>
           GetBackends (snd (handleUpdateBackend um h ''PUT'' (Decoded req))) u =
             GetBackends h u))"
proof (cases "GetUpstream um (UpstreamID req)")
  case None
  then show ?thesis using assms by (simp add: handleUpdateBackend_def)
next
  case (Some u)
  let ?f = "find (\<lambda>p. ID (h p) = BackendID req) (GetBackends h u)"
  show ?thesis
  proof (cases ?f)
    case None
    then show ?thesis
      using assms Some find_None_GetBackends [of h "BackendID req" u]
      by (simp add: handleUpdateBackend_def)
  next
    case found: (Some p)
    have p: "p \<in> set (GetBackends h u)" "ID (h p) = BackendID req"
      using found by (auto simp: find_Some_iff)
    have ex: "\<exists>p \<in> set (backends u). IsActive (h p) \<and> Active (h p) \<and> ID (h p) = BackendID req"
      using p GetBackends_iff [of p h u] by blast
    show ?thesis
      using assms Some found ex p
      by (simp add: handleUpdateBackend_def GetBackends_MaxConn_update)
  qed
qed

theorem C9_update_backend_witness:
  "UpstreamID update_a \<noteq> '''' \<and> BackendID update_a \<noteq> '''' \<and>
   GetUpstream um_default (UpstreamID update_a) = Some (upstreams um_default ! 0) \<and>
   fst (handleUpdateBackend um_default store_a ''PUT'' (Decoded update_a)) =
     HttpJSON True ''Backend updated successfully'' \<and>
   MaxConn (snd (handleUpdateBackend um_default store_a ''PUT'' (Decoded update_a)) 0) = 5 \<and>
   GetBackends (snd (handleUpdateBackend um_default store_a ''PUT'' (Decoded update_a)))
     (upstreams um_default ! 0) = [0, 1]"
proof -
  let ?u = "upstreams um_default ! 0"
  let ?r = "handleUpdateBackend um_default store_a ''PUT'' (Decoded update_a)"
  have a: "UpstreamID update_a \<noteq> ''''" "BackendID update_a \<noteq> ''''"
    by (simp_all add: update_a_def)
  have u: "GetUpstream um_default (UpstreamID update_a) = Some ?u"
    by (simp add: GetUpstream_def update_a_def cfg_defs)
  have g: "GetBackends store_a ?u = [0, 1]"
    by (simp add: GetBackends_def store_a_def cfg_defs sample_defs)
  have i: "ID (store_a 0) = BackendID update_a" "ID (store_a 1) \<noteq> BackendID update_a"
    by (simp_all add: store_a_def update_a_def sample_defs)
  have act: "\<exists>p \<in> set (backends ?u).
      IsActive (store_a p) \<and> Active (store_a p) \<and> ID (store_a p) = BackendID update_a"
    using g i GetBackends_iff [of 0 store_a ?u] by auto
  note t = C9_update_backend [OF a, of um_default store_a]
  have ok: "fst ?r = HttpJSON True ''Backend updated successfully''"
    using t u act by auto
  then obtain p where p: "p \<in> set (GetBackends store_a ?u)"
    "find (\<lambda>q. ID (store_a q) = BackendID update_a) (GetBackends store_a ?u) = Some p"
    "MaxConn (snd ?r p) = ReqMaxConn update_a" "GetBackends (snd ?r) ?u = GetBackends store_a ?u"
    using t u by blast
  have "p = 0" using p(2) g i by simp
  then show ?thesis using a u ok p g by (simp add: update_a_def)
qed

end
